theory Spec2Isabelle
  imports Main "HOL-Library.Multiset" "HOL-Library.Word"
begin

section \<open>Development server: chunked backfill and event ordering\<close>

text \<open>
  The development server (\<^verbatim>\<open>fetchRealData\<close>) reads the chain height, splits the
  range from the fixed \<^verbatim>\<open>startBlock\<close> to the height into sub-ranges, queries
  every event kind per sub-range, and sorts the combined events.
\<close>

subsection \<open>The chunking loop of \<^verbatim>\<open>getEventsWithRetryInChunks\<close>\<close>

definition startBlock :: int where
  "startBlock = 29970000"

definition maxBlockRange :: int where
  "maxBlockRange = 45000"

text \<open>
  The \<^verbatim>\<open>while (currentFromBlock < currentBlock)\<close> loop. Each iteration
  queries the inclusive range from \<^verbatim>\<open>currentFromBlock\<close> to
  \<^verbatim>\<open>currentToBlock = Math.min(currentFromBlock + maxBlockRange, currentBlock)\<close>
  and continues at \<^verbatim>\<open>currentToBlock + 1\<close>. The function lists the queried ranges
  in the order the loop issues them; the retries of one range repeat the same range.
\<close>

function chunkRanges :: "int \<Rightarrow> int \<Rightarrow> (int \<times> int) list" where
  "chunkRanges currentFromBlock currentBlock =
     (if currentFromBlock < currentBlock
      then (let currentToBlock = min (currentFromBlock + maxBlockRange) currentBlock
            in (currentFromBlock, currentToBlock) # chunkRanges (currentToBlock + 1) currentBlock)
      else [])"
  by pat_completeness auto
termination
  by (relation "measure (\<lambda>(f, c). nat (c - f))") (auto simp: maxBlockRange_def Let_def)

declare chunkRanges.simps [simp del]

text \<open>A block is covered when one of the issued inclusive ranges contains it.\<close>

definition covered :: "(int \<times> int) list \<Rightarrow> int \<Rightarrow> bool" where
  "covered rs b = list_ex (\<lambda>(lo, hi). lo \<le> b \<and> b \<le> hi) rs"

subsection \<open>The event orderer of \<^verbatim>\<open>fetchRealData\<close>\<close>

text \<open>
  A raw event as the sort reads it: a log object the provider returned, spread into a new
  object with the event name added. The file is written against the ethers version 6
  interface (\<^verbatim>\<open>new ethers.JsonRpcProvider\<close>), whose log objects carry the position of the
  log in the block as \<^verbatim>\<open>index\<close> and have no property \<^verbatim>\<open>logIndex\<close>. The comparator
  reads \<^verbatim>\<open>a.logIndex || 0\<close>; the property is kept as an optional field, undefined on
  the objects the provider returns.
\<close>

record RawEvent =
  blockNumber :: int
  index :: int
  logIndex :: "int option"
  transactionHash :: string
  eventName :: string

record eventResults =
  tokenCreated :: "RawEvent list"
  tokenMinted :: "RawEvent list"
  transferSingle :: "RawEvent list"
  transferBatch :: "RawEvent list"
  roleGranted :: "RawEvent list"
  roleRevoked :: "RawEvent list"

text \<open>\<^verbatim>\<open>x || 0\<close> on a number that may be undefined.\<close>

definition orZero :: "int option \<Rightarrow> int" where
  "orZero x = (case x of None \<Rightarrow> 0 | Some v \<Rightarrow> v)"

text \<open>The comparator passed to \<^verbatim>\<open>sort\<close>.\<close>

definition compareEvents :: "RawEvent \<Rightarrow> RawEvent \<Rightarrow> int" where
  "compareEvents a b =
     (if blockNumber a \<noteq> blockNumber b then blockNumber a - blockNumber b
      else orZero (logIndex a) - orZero (logIndex b))"

text \<open>
  \<^verbatim>\<open>Array.prototype.sort\<close> with a comparator is a stable sort: an element moves
  in front of another only when the comparator is negative. It is modelled as a stable
  insertion sort.
\<close>

fun insertBy :: "('a \<Rightarrow> 'a \<Rightarrow> int) \<Rightarrow> 'a \<Rightarrow> 'a list \<Rightarrow> 'a list" where
  "insertBy cmp x [] = [x]"
| "insertBy cmp x (y # ys) =
     (if cmp x y \<le> 0 then x # y # ys else y # insertBy cmp x ys)"

definition js_sort :: "('a \<Rightarrow> 'a \<Rightarrow> int) \<Rightarrow> 'a list \<Rightarrow> 'a list" where
  "js_sort cmp xs = foldr (insertBy cmp) xs []"

text \<open>
  The combined array: the spread of five of the six fetched lists (the
  \<^verbatim>\<open>tokenMinted\<close> list is fetched but not spread), sorted.
\<close>

definition combined :: "eventResults \<Rightarrow> RawEvent list" where
  "combined er =
     tokenCreated er @ transferSingle er @ transferBatch er @ roleGranted er @ roleRevoked er"

definition allEventsSorted :: "eventResults \<Rightarrow> RawEvent list" where
  "allEventsSorted er = js_sort compareEvents (combined er)"

text \<open>The order of the comparator: block number first, then what it reads as log index.\<close>

definition orderKey :: "RawEvent \<Rightarrow> int \<times> int" where
  "orderKey e = (blockNumber e, orZero (logIndex e))"

definition before_eq :: "RawEvent \<Rightarrow> RawEvent \<Rightarrow> bool" where
  "before_eq a b \<longleftrightarrow>
     blockNumber a < blockNumber b \<or>
     (blockNumber a = blockNumber b \<and> orZero (logIndex a) \<le> orZero (logIndex b))"

subsection \<open>Two logs of one block\<close>

text \<open>
  What the provider returns for a block 100 in which a first transaction transfers a token
  (log 1), a second emits \<^verbatim>\<open>TokenMinted\<close> (log 3) and a third creates a token
  (log 5): one log per filter, none with a \<^verbatim>\<open>logIndex\<close>.
\<close>

definition transferLog :: RawEvent where
  "transferLog =
     \<lparr>blockNumber = 100, index = 1, logIndex = None, transactionHash = ''0x01'',
      eventName = ''TransferSingle''\<rparr>"

definition mintedLog :: RawEvent where
  "mintedLog =
     \<lparr>blockNumber = 100, index = 3, logIndex = None, transactionHash = ''0x02'',
      eventName = ''TokenMinted''\<rparr>"

definition createdLog :: RawEvent where
  "createdLog =
     \<lparr>blockNumber = 100, index = 5, logIndex = None, transactionHash = ''0x03'',
      eventName = ''TokenCreated''\<rparr>"

definition sameBlockResults :: eventResults where
  "sameBlockResults =
     \<lparr>tokenCreated = [createdLog], tokenMinted = [mintedLog], transferSingle = [transferLog],
      transferBatch = [], roleGranted = [], roleRevoked = []\<rparr>"

text \<open>
  The same transfer and creation on objects that do have a \<^verbatim>\<open>logIndex\<close>, with a role
  grant of the block before (log 7 of block 99).
\<close>

definition roleLog :: RawEvent where
  "roleLog =
     \<lparr>blockNumber = 99, index = 7, logIndex = Some 7, transactionHash = ''0x04'',
      eventName = ''RoleGranted''\<rparr>"

definition indexedResults :: eventResults where
  "indexedResults =
     \<lparr>tokenCreated = [createdLog\<lparr>logIndex := Some 5\<rparr>], tokenMinted = [],
      transferSingle = [transferLog\<lparr>logIndex := Some 1\<rparr>],
      transferBatch = [], roleGranted = [roleLog], roleRevoked = []\<rparr>"

section \<open>The subgraph mapping: values, events and entities\<close>

type_synonym Bytes = "8 word list"
type_synonym BigInt = int

text \<open>\<^verbatim>\<open>Bytes.toHex()\<close>: the prefix \<^verbatim>\<open>0x\<close> and two lower-case digits per byte.\<close>

definition digitChars :: string where
  "digitChars = ''0123456789abcdef''"

definition hexByte :: "8 word \<Rightarrow> string" where
  "hexByte b = [digitChars ! (unat b div 16), digitChars ! (unat b mod 16)]"

definition toHex :: "Bytes \<Rightarrow> string" where
  "toHex bs = ''0x'' @ concat (map hexByte bs)"

text \<open>\<^verbatim>\<open>toString()\<close> of an index and of a \<^verbatim>\<open>BigInt\<close>: decimal digits, with a sign.\<close>

fun natToString :: "nat \<Rightarrow> string" where
  "natToString n =
     (if n < 10 then [digitChars ! n] else natToString (n div 10) @ [digitChars ! (n mod 10)])"

declare natToString.simps [simp del]

definition toStr :: "BigInt \<Rightarrow> string" where
  "toStr i = (if i < 0 then CHR ''-'' # natToString (nat (- i)) else natToString (nat i))"

definition startsWith :: "string \<Rightarrow> string \<Rightarrow> bool" where
  "startsWith s p \<longleftrightarrow> take (length p) s = p"

text \<open>\<^verbatim>\<open>s.replace(pat, rep)\<close> replaces the first occurrence only.\<close>

fun replaceFirst :: "string \<Rightarrow> string \<Rightarrow> string \<Rightarrow> string" where
  "replaceFirst pat rep [] = (if pat = [] then rep else [])"
| "replaceFirst pat rep (c # cs) =
     (if startsWith (c # cs) pat then rep @ drop (length pat) (c # cs)
      else c # replaceFirst pat rep cs)"

text \<open>\<^verbatim>\<open>s.split("/")[0]\<close>: the part before the first slash.\<close>

definition splitFirst :: "string \<Rightarrow> string" where
  "splitFirst s = takeWhile (\<lambda>c. c \<noteq> CHR ''/'') s"

definition MINTER_ROLE :: string where
  "MINTER_ROLE = ''0x9f2df0fed2c77648de5860a4cc508cd0818c85b8b8a1ab4ceeef8d981c8956a6''"

definition DEFAULT_ADMIN_ROLE :: string where
  "DEFAULT_ADMIN_ROLE = ''0x0000000000000000000000000000000000000000''"

text \<open>The literal both transfer handlers compare \<^verbatim>\<open>from.toHex()\<close> with.\<close>

definition ZERO_ADDRESS :: string where
  "ZERO_ADDRESS = ''0x0000000000000000000000000000000000000000''"

subsection \<open>Traps\<close>

text \<open>
  An AssemblyScript handler has no exceptions to catch: a failed assertion of the JSON
  accessors (\<^verbatim>\<open>toObject\<close>, \<^verbatim>\<open>toString\<close> on a value of another kind) and an
  array read past the end abort the handler.
\<close>

datatype error = JsonKindAssertion | IndexOutOfRange

definition bindE :: "error + 'a \<Rightarrow> ('a \<Rightarrow> error + 'b) \<Rightarrow> error + 'b" where
  "bindE m f = (case m of Inl e \<Rightarrow> Inl e | Inr x \<Rightarrow> f x)"

subsection \<open>The host environment\<close>

datatype JSONValue =
    JNull
  | JBool bool
  | JNumber string
  | JString string
  | JArray "JSONValue list"
  | JObject "(string \<times> JSONValue) list"

record http_response =
  status :: int
  body :: Bytes

text \<open>
  What the handlers ask of the host: the contract call \<^verbatim>\<open>try_uri\<close> (\<open>None\<close> when
  it reverted), \<^verbatim>\<open>http.get\<close> and \<^verbatim>\<open>ipfs.cat\<close> (\<open>None\<close> for no
  response), and \<^verbatim>\<open>json.try_fromBytes\<close> (\<open>None\<close> when the bytes are not JSON).
  The host answers as a function of the request, so the two retrievals that one resolution
  makes for a URI see the same content.
\<close>

record env =
  try_uri :: "Bytes \<Rightarrow> BigInt \<Rightarrow> string option"
  http_get :: "string \<Rightarrow> http_response option"
  ipfs_cat :: "string \<Rightarrow> Bytes option"
  json_try_fromBytes :: "Bytes \<Rightarrow> JSONValue option"

definition toObject :: "JSONValue \<Rightarrow> error + (string \<times> JSONValue) list" where
  "toObject j = (case j of JObject kvs \<Rightarrow> Inr kvs | _ \<Rightarrow> Inl JsonKindAssertion)"

definition toStringJ :: "JSONValue \<Rightarrow> error + string" where
  "toStringJ j = (case j of JString x \<Rightarrow> Inr x | _ \<Rightarrow> Inl JsonKindAssertion)"

text \<open>\<^verbatim>\<open>TypedMap.get\<close>: the first entry with the key, or null.\<close>

definition jget :: "(string \<times> JSONValue) list \<Rightarrow> string \<Rightarrow> JSONValue option" where
  "jget obj k = map_of obj k"

subsection \<open>Events\<close>

text \<open>
  \<^verbatim>\<open>ethereum.Event\<close> with the fields the handlers read: \<^verbatim>\<open>event.block.number\<close>
  is \<open>block_number\<close>, \<^verbatim>\<open>event.transaction.hash\<close> is \<open>tx_hash\<close>, and so on.
  The event classes extend it with their parameters.
\<close>

record Event =
  ev_address :: Bytes
  ev_logIndex :: BigInt
  block_number :: BigInt
  block_timestamp :: BigInt
  block_hash :: Bytes
  tx_hash :: Bytes
  tx_index :: BigInt
  tx_from :: Bytes
  tx_to :: "Bytes option"
  tx_value :: BigInt
  tx_gasPrice :: BigInt

record TokenCreated = Event +
  p_tokenId :: BigInt
  p_tokenType :: int
  p_category :: string
  p_subCategory :: string

record TransferSingle = Event +
  ts_operator :: Bytes
  ts_from :: Bytes
  ts_to :: Bytes
  ts_id :: BigInt
  ts_value :: BigInt

record TransferBatch = Event +
  tb_operator :: Bytes
  tb_from :: Bytes
  tb_to :: Bytes
  tb_ids :: "BigInt list"
  tb_values :: "BigInt list"

record RoleGranted = Event +
  rg_role :: Bytes
  rg_account :: Bytes
  rg_sender :: Bytes

record RoleRevoked = Event +
  rr_role :: Bytes
  rr_account :: Bytes
  rr_sender :: Bytes

subsection \<open>Entities\<close>

text \<open>
  One record per entity of the schema, the fields prefixed by the entity. A field the
  handlers may leave unset is an option. The \<^verbatim>\<open>id\<close> of an entity is the key it
  is stored under and is not repeated in the record: \<^verbatim>\<open>x.id\<close> is the id the
  object was created or loaded with.
\<close>

record Token =
  tok_tokenId :: BigInt
  tok_tokenType :: int
  tok_category :: string
  tok_subCategory :: string
  tok_soulbound :: bool
  tok_maxSupply :: BigInt
  tok_currentSupply :: BigInt
  tok_creator :: Bytes
  tok_createdAt :: BigInt
  tok_createdAtBlock :: BigInt
  tok_createdTxHash :: Bytes
  tok_tokenURI :: "string option"
  tok_metadata :: "string option"
  tok_name :: "string option"
  tok_description :: "string option"
  tok_image :: "string option"
  tok_rewardId :: "string option"
  tok_forgeId :: "string option"

record TokenCreation =
  tc_token :: string
  tc_tokenId :: BigInt
  tc_tokenType :: int
  tc_category :: string
  tc_subCategory :: string
  tc_creator :: string
  tc_timestamp :: BigInt
  tc_blockNumber :: BigInt
  tc_transactionHash :: Bytes

record TokenMint =
  tm_token :: string
  tm_to :: string
  tm_amount :: BigInt
  tm_timestamp :: BigInt
  tm_blockNumber :: BigInt
  tm_transactionHash :: Bytes
  tm_operator :: Bytes
  tm_tokenName :: "string option"
  tm_tokenDescription :: "string option"
  tm_tokenImage :: "string option"
  tm_tokenCategory :: "string option"
  tm_tokenSubCategory :: "string option"
  tm_rewardId :: "string option"
  tm_tokenForgeId :: "string option"

record User =
  u_address :: Bytes
  u_totalTokensCreated :: BigInt
  u_totalTokensMinted :: BigInt
  u_firstInteraction :: BigInt
  u_lastInteraction :: BigInt
  u_totalInventoryValue :: BigInt

record UserTokenBalance =
  utb_user :: string
  utb_token :: string
  utb_balance :: BigInt
  utb_lastUpdated :: BigInt

record UserInventoryItem =
  inv_user :: string
  inv_token :: string
  inv_balance :: BigInt
  inv_firstAcquired :: BigInt
  inv_tokenType :: int
  inv_category :: string
  inv_subCategory :: string
  inv_rewardId :: "string option"
  inv_lastUpdated :: BigInt
  inv_lastAcquired :: BigInt

record RoleChange =
  rc_role :: Bytes
  rc_roleName :: string
  rc_account :: string
  rc_sender :: Bytes
  rc_granted :: bool
  rc_timestamp :: BigInt
  rc_blockNumber :: BigInt
  rc_transactionHash :: Bytes

record GlobalStats =
  gs_totalTokens :: BigInt
  gs_totalMints :: BigInt
  gs_totalUsers :: BigInt
  gs_totalSupply :: BigInt
  gs_totalEvents :: BigInt
  gs_lastUpdated :: BigInt

record DailyStats =
  ds_date :: BigInt
  ds_tokensCreated :: BigInt
  ds_tokensMinted :: BigInt
  ds_activeUsers :: BigInt
  ds_totalSupplyChange :: BigInt

record TokenMetadata =
  md_token :: string
  md_name :: string
  md_description :: string
  md_image :: string
  md_rewardId :: string
  md_properties :: "string option"

record TokenProperties =
  tp_metadata :: string
  tp_badgeType :: string
  tp_createdBy :: string
  tp_rewardId :: string
  tp_forgeId :: string

record TokenAttribute =
  ta_metadata :: string
  ta_traitType :: string
  ta_value :: string

record AllEvent =
  ae_eventType :: string
  ae_blockNumber :: BigInt
  ae_blockHash :: Bytes
  ae_transactionHash :: Bytes
  ae_transactionIndex :: BigInt
  ae_logIndex :: BigInt
  ae_timestamp :: BigInt
  ae_gasPrice :: BigInt
  ae_from :: Bytes
  ae_to :: "Bytes option"
  ae_value :: BigInt
  ae_description :: string
  ae_tokenId :: "BigInt option"
  ae_tokenType :: "int option"
  ae_category :: "string option"
  ae_subCategory :: "string option"
  ae_creator :: "Bytes option"
  ae_fromAddress :: "Bytes option"
  ae_toAddress :: "Bytes option"
  ae_amount :: "BigInt option"
  ae_operator :: "Bytes option"
  ae_amounts :: "BigInt list option"
  ae_tokenIds :: "BigInt list option"
  ae_role :: "Bytes option"
  ae_roleHash :: "Bytes option"
  ae_account :: "Bytes option"
  ae_sender :: "Bytes option"

subsection \<open>The entity store\<close>

text \<open>
  One collection per entity kind, from string id to record, in insertion order.
  \<^verbatim>\<open>X.load(id)\<close> is \<open>load\<close>, \<^verbatim>\<open>x.save()\<close> is \<open>save\<close> under the id of
  the object (an upsert), \<^verbatim>\<open>store.remove\<close> is \<open>remove\<close>.
  A saved object replaces the stored one; the results below read only fields that the
  saving handler assigns.
\<close>

type_synonym 'a table = "(string \<times> 'a) list"

definition load :: "'a table \<Rightarrow> string \<Rightarrow> 'a option" where
  "load tbl k = map_of tbl k"

primrec save :: "string \<Rightarrow> 'a \<Rightarrow> 'a table \<Rightarrow> 'a table" where
  "save k v [] = [(k, v)]"
| "save k v (p # ps) = (if fst p = k then (k, v) # ps else p # save k v ps)"

definition remove :: "string \<Rightarrow> 'a table \<Rightarrow> 'a table" where
  "remove k tbl = filter (\<lambda>p. fst p \<noteq> k) tbl"

record entity_store =
  tokens :: "Token table"
  tokenCreations :: "TokenCreation table"
  tokenMints :: "TokenMint table"
  users :: "User table"
  userTokenBalances :: "UserTokenBalance table"
  userInventoryItems :: "UserInventoryItem table"
  roleChanges :: "RoleChange table"
  globalStats :: "GlobalStats table"
  dailyStats :: "DailyStats table"
  tokenMetadatas :: "TokenMetadata table"
  tokenProperties :: "TokenProperties table"
  tokenAttributes :: "TokenAttribute table"
  allEvents :: "AllEvent table"

definition emptyStore :: entity_store where
  "emptyStore =
     \<lparr>tokens = [], tokenCreations = [], tokenMints = [], users = [], userTokenBalances = [],
      userInventoryItems = [], roleChanges = [], globalStats = [], dailyStats = [],
      tokenMetadatas = [], tokenProperties = [], tokenAttributes = [], allEvents = []\<rparr>"

section \<open>The subgraph mapping: helpers\<close>

text \<open>
  The id every handler builds for its journal entry (and, in the creation and role
  handlers, for the derived record):
  \<^verbatim>\<open>event.transaction.hash.toHex() + "-" + event.logIndex.toString()\<close>.
\<close>

definition eventId :: "'a Event_scheme \<Rightarrow> string" where
  "eventId event = toHex (tx_hash event) @ ''-'' @ toStr (ev_logIndex event)"

text \<open>The id of a \<^verbatim>\<open>TokenMint\<close>: the same with the token id appended.\<close>

definition mintId :: "'a Event_scheme \<Rightarrow> string \<Rightarrow> string" where
  "mintId event tokenIdString =
     toHex (tx_hash event) @ ''-'' @ toStr (ev_logIndex event) @ ''-'' @ tokenIdString"

text \<open>
  The fields every handler copies from the event into its \<^verbatim>\<open>AllEvent\<close>; the
  fields particular to an event kind start unset.
\<close>

definition baseAllEvent :: "string \<Rightarrow> string \<Rightarrow> 'a Event_scheme \<Rightarrow> AllEvent" where
  "baseAllEvent eventType description event =
     \<lparr>ae_eventType = eventType,
      ae_blockNumber = block_number event, ae_blockHash = block_hash event,
      ae_transactionHash = tx_hash event, ae_transactionIndex = tx_index event,
      ae_logIndex = ev_logIndex event, ae_timestamp = block_timestamp event,
      ae_gasPrice = tx_gasPrice event, ae_from = tx_from event, ae_to = tx_to event,
      ae_value = tx_value event, ae_description = description,
      ae_tokenId = None, ae_tokenType = None, ae_category = None, ae_subCategory = None,
      ae_creator = None, ae_fromAddress = None, ae_toAddress = None, ae_amount = None,
      ae_operator = None, ae_amounts = None, ae_tokenIds = None, ae_role = None,
      ae_roleHash = None, ae_account = None, ae_sender = None\<rparr>"

definition getRoleName :: "Bytes \<Rightarrow> string" where
  "getRoleName role =
     (if toHex role = MINTER_ROLE then ''MINTER''
      else if toHex role = DEFAULT_ADMIN_ROLE then ''DEFAULT_ADMIN''
      else ''UNKNOWN'')"

definition updateGlobalStats ::
  "BigInt \<Rightarrow> bool \<Rightarrow> bool \<Rightarrow> bool \<Rightarrow> entity_store \<Rightarrow> entity_store" where
  "updateGlobalStats timestamp incrementTokens incrementMints incrementUsers s =
     (let g0 = (case load (globalStats s) ''1'' of
                  Some g \<Rightarrow> g
                | None \<Rightarrow> \<lparr>gs_totalTokens = 0, gs_totalMints = 0,
                           gs_totalUsers = 0, gs_totalSupply = 0, gs_totalEvents = 0,
                           gs_lastUpdated = 0\<rparr>);
          g1 = (if incrementTokens then g0\<lparr>gs_totalTokens := gs_totalTokens g0 + 1\<rparr> else g0);
          g2 = (if incrementMints then g1\<lparr>gs_totalMints := gs_totalMints g1 + 1\<rparr> else g1);
          g3 = (if incrementUsers then g2\<lparr>gs_totalUsers := gs_totalUsers g2 + 1\<rparr> else g2);
          g4 = g3\<lparr>gs_totalEvents := gs_totalEvents g3 + 1, gs_lastUpdated := timestamp\<rparr>
      in s\<lparr>globalStats := save ''1'' g4 (globalStats s)\<rparr>)"

text \<open>\<^verbatim>\<open>BigInt.div\<close> rounds toward zero.\<close>

definition bigIntDiv :: "BigInt \<Rightarrow> BigInt \<Rightarrow> BigInt" where
  "bigIntDiv a b = sgn a * sgn b * (\<bar>a\<bar> div \<bar>b\<bar>)"

definition updateDailyStats :: "BigInt \<Rightarrow> bool \<Rightarrow> bool \<Rightarrow> entity_store \<Rightarrow> entity_store" where
  "updateDailyStats timestamp incrementTokens incrementMints s =
     (let date = toStr (bigIntDiv timestamp 86400);
          d0 = (case load (dailyStats s) date of
                  Some d \<Rightarrow> d
                | None \<Rightarrow> \<lparr>ds_date = bigIntDiv timestamp 86400,
                           ds_tokensCreated = 0, ds_tokensMinted = 0, ds_activeUsers = 0,
                           ds_totalSupplyChange = 0\<rparr>);
          d1 = (if incrementTokens then d0\<lparr>ds_tokensCreated := ds_tokensCreated d0 + 1\<rparr> else d0);
          d2 = (if incrementMints then d1\<lparr>ds_tokensMinted := ds_tokensMinted d1 + 1\<rparr> else d1);
          d3 = d2\<lparr>ds_activeUsers := ds_activeUsers d2 + 1\<rparr>
      in s\<lparr>dailyStats := save date d3 (dailyStats s)\<rparr>)"

text \<open>
  \<^verbatim>\<open>getOrCreateUser\<close> returns the user object and leaves it saved. A user that
  was not in the store is counted by \<^verbatim>\<open>updateGlobalStats\<close> before it is saved.
\<close>

definition getOrCreateUser :: "Bytes \<Rightarrow> entity_store \<Rightarrow> User \<times> entity_store" where
  "getOrCreateUser address s =
     (let userId = toHex address;
          (user, s1) = (case load (users s) userId of
                          Some u \<Rightarrow> (u, s)
                        | None \<Rightarrow>
                            (\<lparr>u_address = address, u_totalTokensCreated = 0,
                              u_totalTokensMinted = 0, u_firstInteraction = 0,
                              u_lastInteraction = 0, u_totalInventoryValue = 0\<rparr>,
                             updateGlobalStats 0 False False True s));
          user1 = (if u_firstInteraction user = 0 then user\<lparr>u_firstInteraction := 0\<rparr> else user)
      in (user1, s1\<lparr>users := save userId user1 (users s1)\<rparr>))"

definition updateUserBalance ::
  "Bytes \<Rightarrow> BigInt \<Rightarrow> BigInt \<Rightarrow> BigInt \<Rightarrow> entity_store \<Rightarrow> entity_store" where
  "updateUserBalance address tokenId amount timestamp s =
     (let tokenIdString = toStr tokenId;
          userId = toHex address;
          balanceId = userId @ ''-'' @ tokenIdString;
          balance0 = (case load (userTokenBalances s) balanceId of
                        Some b \<Rightarrow> b
                      | None \<Rightarrow> \<lparr>utb_user = userId,
                                 utb_token = tokenIdString, utb_balance = 0,
                                 utb_lastUpdated = 0\<rparr>);
          balance1 = balance0\<lparr>utb_balance := utb_balance balance0 + amount,
                              utb_lastUpdated := timestamp\<rparr>;
          s1 = (if utb_balance balance1 = 0
                then s\<lparr>userTokenBalances := remove balanceId (userTokenBalances s)\<rparr>
                else s\<lparr>userTokenBalances :=
                         save balanceId balance1 (userTokenBalances s)\<rparr>);
          (user, s2) = getOrCreateUser address s1;
          user1 = user\<lparr>u_totalInventoryValue := u_totalInventoryValue user + amount,
                       u_lastInteraction := timestamp\<rparr>
      in s2\<lparr>users := save userId user1 (users s2)\<rparr>)"

section \<open>The subgraph mapping: the metadata resolver\<close>

text \<open>\<^verbatim>\<open>if (x) metadata.f = x.toString()\<close> for a value looked up in the JSON object.\<close>

definition setIfPresent ::
  "JSONValue option \<Rightarrow> (string \<Rightarrow> 'a \<Rightarrow> 'a) \<Rightarrow> 'a \<Rightarrow> error + 'a" where
  "setIfPresent v upd m =
     (case v of None \<Rightarrow> Inr m | Some j \<Rightarrow> bindE (toStringJ j) (\<lambda>x. Inr (upd x m)))"

text \<open>The loop over the \<^verbatim>\<open>attributes\<close> array, from index \<open>i\<close> on.\<close>

fun saveAttributes ::
  "string \<Rightarrow> nat \<Rightarrow> JSONValue list \<Rightarrow> TokenAttribute table \<Rightarrow> error + TokenAttribute table" where
  "saveAttributes tokenId i [] tbl = Inr tbl"
| "saveAttributes tokenId i (a # rest) tbl =
     (case toObject a of
        Inl e \<Rightarrow> Inl e
      | Inr attrObj \<Rightarrow>
          (case (jget attrObj ''trait_type'', jget attrObj ''value'') of
             (Some traitType, Some v) \<Rightarrow>
               (case toStringJ traitType of
                  Inl e \<Rightarrow> Inl e
                | Inr tt \<Rightarrow>
                    (case toStringJ v of
                       Inl e \<Rightarrow> Inl e
                     | Inr vv \<Rightarrow>
                         (let attrId = tokenId @ ''-attr-'' @ natToString i;
                              attribute = \<lparr>ta_metadata = tokenId,
                                           ta_traitType = tt, ta_value = vv\<rparr>
                          in saveAttributes tokenId (Suc i) rest (save attrId attribute tbl))))
           | _ \<Rightarrow> saveAttributes tokenId (Suc i) rest tbl))"

text \<open>
  The block both the HTTP and the IPFS branch run on a parsed document (the source
  repeats it verbatim): read the object, copy the recognised fields, save the attributes.
\<close>

definition applyMetadataJson ::
  "string \<Rightarrow> JSONValue \<Rightarrow> TokenMetadata \<Rightarrow> TokenAttribute table \<Rightarrow>
   error + (TokenMetadata \<times> TokenAttribute table)" where
  "applyMetadataJson tokenId j metadata attrs =
     bindE (toObject j) (\<lambda>metadataObj.
     bindE (setIfPresent (jget metadataObj ''name'') (\<lambda>x m. m\<lparr>md_name := x\<rparr>) metadata) (\<lambda>m1.
     bindE (setIfPresent (jget metadataObj ''description'') (\<lambda>x m. m\<lparr>md_description := x\<rparr>) m1) (\<lambda>m2.
     bindE (setIfPresent (jget metadataObj ''image'') (\<lambda>x m. m\<lparr>md_image := x\<rparr>) m2) (\<lambda>m3.
     bindE (setIfPresent (jget metadataObj ''rewardId'') (\<lambda>x m. m\<lparr>md_rewardId := x\<rparr>) m3) (\<lambda>m4.
       (case jget metadataObj ''attributes'' of
          Some (JArray attrArray) \<Rightarrow>
            bindE (saveAttributes tokenId 0 attrArray attrs) (\<lambda>attrs1. Inr (m4, attrs1))
        | _ \<Rightarrow> Inr (m4, attrs)))))))"

text \<open>The second pass over the document, for \<^verbatim>\<open>forge_id\<close>.\<close>

definition applyForgeId ::
  "JSONValue \<Rightarrow> TokenProperties \<Rightarrow> TokenMetadata \<Rightarrow> error + (TokenProperties \<times> TokenMetadata)" where
  "applyForgeId j properties metadata =
     bindE (toObject j) (\<lambda>metadataObj.
       (case jget metadataObj ''forge_id'' of
          None \<Rightarrow> Inr (properties, metadata)
        | Some forgeId \<Rightarrow>
            bindE (toStringJ forgeId) (\<lambda>x.
              Inr (properties\<lparr>tp_forgeId := x\<rparr>, metadata\<lparr>md_rewardId := x\<rparr>))))"

text \<open>
  The document a URI leads to, when there is one: for \<^verbatim>\<open>http\<close> a response with
  status 200 whose body parses, for \<^verbatim>\<open>ipfs://\<close> content under the hash (the path
  up to the first slash) that parses. Both passes of the resolver retrieve it this way.
\<close>

definition ipfsHash :: "string \<Rightarrow> string" where
  "ipfsHash tokenURI = splitFirst (replaceFirst ''ipfs://'' '''' tokenURI)"

definition retrieveJson :: "env \<Rightarrow> string \<Rightarrow> JSONValue option" where
  "retrieveJson env tokenURI =
     (if startsWith tokenURI ''http'' then
        (case http_get env tokenURI of
           Some response \<Rightarrow>
             (if status response = 200 then json_try_fromBytes env (body response) else None)
         | None \<Rightarrow> None)
      else if startsWith tokenURI ''ipfs://'' then
        (case ipfs_cat env (ipfsHash tokenURI) of
           Some metadataBytes \<Rightarrow> json_try_fromBytes env metadataBytes
         | None \<Rightarrow> None)
      else None)"

text \<open>
  \<^verbatim>\<open>fetchAndParseMetadata\<close>. \<^verbatim>\<open>!tokenURI\<close> holds for null and for the empty
  string. The function has no path that returns null; its declared result type is kept.
\<close>

definition fetchAndParseMetadata ::
  "env \<Rightarrow> string \<Rightarrow> string option \<Rightarrow> entity_store \<Rightarrow>
   error + (TokenMetadata option \<times> entity_store)" where
  "fetchAndParseMetadata env tokenId tokenURI s =
     (let metadata = \<lparr>md_token = tokenId, md_name = ''Token '' @ tokenId,
                      md_description = ''Description for token '' @ tokenId,
                      md_image = '''', md_rewardId = '''', md_properties = None\<rparr>;
          early = Inr (Some metadata,
                       s\<lparr>tokenMetadatas := save tokenId metadata (tokenMetadatas s)\<rparr>)
      in case tokenURI of
           None \<Rightarrow> early
         | Some uri \<Rightarrow>
             if uri = '''' then early
             else
               bindE (case retrieveJson env uri of
                        Some j \<Rightarrow> applyMetadataJson tokenId j metadata (tokenAttributes s)
                      | None \<Rightarrow> Inr (metadata, tokenAttributes s))
                 (\<lambda>(metadata1, attrs1).
                    let properties = \<lparr>tp_metadata = tokenId,
                                      tp_badgeType = '''', tp_createdBy = '''',
                                      tp_rewardId = md_rewardId metadata1, tp_forgeId = ''''\<rparr>
                    in bindE (case retrieveJson env uri of
                                Some j \<Rightarrow> applyForgeId j properties metadata1
                              | None \<Rightarrow> Inr (properties, metadata1))
                         (\<lambda>(properties1, metadata2).
                            let metadata3 =
                                  metadata2\<lparr>md_properties := Some tokenId\<rparr>
                            in Inr (Some metadata3,
                                    s\<lparr>tokenAttributes := attrs1,
                                      tokenProperties :=
                                        save tokenId properties1 (tokenProperties s),
                                      tokenMetadatas :=
                                        save tokenId metadata3 (tokenMetadatas s)\<rparr>))))"

section \<open>The subgraph mapping: the event handlers\<close>

text \<open>
  The body of \<^verbatim>\<open>if (!token) { ... }\<close> in \<^verbatim>\<open>handleTokenCreated\<close>: build the
  token, resolve its metadata, copy the resolved fields, save.
\<close>

definition createToken :: "env \<Rightarrow> TokenCreated \<Rightarrow> entity_store \<Rightarrow> error + entity_store" where
  "createToken env event s =
     (let tokenId = p_tokenId event;
          tokenIdString = toStr tokenId;
          token = \<lparr>tok_tokenId = tokenId,
                   tok_tokenType = p_tokenType event, tok_category = p_category event,
                   tok_subCategory = p_subCategory event, tok_soulbound = False,
                   tok_maxSupply = 0, tok_currentSupply = 0, tok_creator = tx_from event,
                   tok_createdAt = block_timestamp event,
                   tok_createdAtBlock = block_number event, tok_createdTxHash = tx_hash event,
                   tok_tokenURI = try_uri env (ev_address event) tokenId,
                   tok_metadata = None, tok_name = None, tok_description = None,
                   tok_image = None, tok_rewardId = None, tok_forgeId = None\<rparr>
      in bindE (fetchAndParseMetadata env tokenIdString (tok_tokenURI token) s)
           (\<lambda>(result, s1).
              case result of
                Some metadata0 \<Rightarrow>
                  (let metadata = metadata0\<lparr>md_token := tokenIdString\<rparr>;
                       s2 = s1\<lparr>tokenMetadatas :=
                                 save tokenIdString metadata (tokenMetadatas s1)\<rparr>;
                       token1 = token\<lparr>tok_metadata := Some tokenIdString,
                                       tok_name := Some (md_name metadata),
                                       tok_description := Some (md_description metadata),
                                       tok_image := Some (md_image metadata),
                                       tok_rewardId := Some (md_rewardId metadata)\<rparr>;
                       token2 = (case md_properties metadata of
                                   Some pid \<Rightarrow>
                                     (case load (tokenProperties s2) pid of
                                        Some properties \<Rightarrow>
                                          token1\<lparr>tok_forgeId := Some (tp_forgeId properties)\<rparr>
                                      | None \<Rightarrow> token1)
                                 | None \<Rightarrow> token1)
                   in Inr (s2\<lparr>tokens := save tokenIdString token2 (tokens s2)\<rparr>))
              | None \<Rightarrow>
                  (let token1 = token\<lparr>tok_name := Some (''Token '' @ tokenIdString),
                                       tok_description :=
                                         Some (''Description for token '' @ tokenIdString),
                                       tok_image := Some '''', tok_rewardId := Some '''',
                                       tok_forgeId := Some ''''\<rparr>
                   in Inr (s1\<lparr>tokens := save tokenIdString token1 (tokens s1)\<rparr>))))"

text \<open>
  The rest of \<^verbatim>\<open>handleTokenCreated\<close>, which runs whether or not the token
  existed: the creation record, the journal entry, the creator's counter, the statistics.
\<close>

definition recordCreation :: "TokenCreated \<Rightarrow> entity_store \<Rightarrow> entity_store" where
  "recordCreation event s =
     (let tokenId = p_tokenId event;
          tokenIdString = toStr tokenId;
          creationId = eventId event;
          (creator, s1) = getOrCreateUser (tx_from event) s;
          creation = \<lparr>tc_token = tokenIdString, tc_tokenId = tokenId,
                      tc_tokenType = p_tokenType event, tc_category = p_category event,
                      tc_subCategory = p_subCategory event, tc_creator = toHex (tx_from event),
                      tc_timestamp = block_timestamp event,
                      tc_blockNumber = block_number event,
                      tc_transactionHash = tx_hash event\<rparr>;
          s2 = s1\<lparr>tokenCreations := save creationId creation (tokenCreations s1)\<rparr>;
          allEvent = (baseAllEvent ''TokenCreated''
                        (''Token created with ID: '' @ tokenIdString) event)
                       \<lparr>ae_tokenId := Some tokenId, ae_tokenType := Some (p_tokenType event),
                        ae_category := Some (p_category event),
                        ae_subCategory := Some (p_subCategory event),
                        ae_creator := Some (tx_from event)\<rparr>;
          s3 = s2\<lparr>allEvents := save (eventId event) allEvent (allEvents s2)\<rparr>;
          (user, s4) = getOrCreateUser (tx_from event) s3;
          user1 = user\<lparr>u_totalTokensCreated := u_totalTokensCreated user + 1,
                       u_lastInteraction := block_timestamp event\<rparr>;
          s5 = s4\<lparr>users := save (toHex (tx_from event)) user1 (users s4)\<rparr>;
          s6 = updateGlobalStats (block_timestamp event) True False False s5
      in updateDailyStats (block_timestamp event) True False s6)"

definition handleTokenCreated ::
  "env \<Rightarrow> TokenCreated \<Rightarrow> entity_store \<Rightarrow> error + entity_store" where
  "handleTokenCreated env event s =
     bindE (case load (tokens s) (toStr (p_tokenId event)) of
              None \<Rightarrow> createToken env event s
            | Some token \<Rightarrow> Inr s)
       (\<lambda>s1. Inr (recordCreation event s1))"

definition handleTokenMint ::
  "Bytes \<Rightarrow> BigInt \<Rightarrow> BigInt \<Rightarrow> Bytes \<Rightarrow> 'a Event_scheme \<Rightarrow> entity_store \<Rightarrow> entity_store" where
  "handleTokenMint to tokenId amount operator event s =
     (let tokenIdString = toStr tokenId;
          (toUser, s1) = getOrCreateUser to s;
          tokenEntity = load (tokens s1) tokenIdString;
          mint = \<lparr>tm_token = tokenIdString,
                  tm_to = toHex to, tm_amount = amount,
                  tm_timestamp = block_timestamp event, tm_blockNumber = block_number event,
                  tm_transactionHash = tx_hash event, tm_operator = operator,
                  tm_tokenName = (case tokenEntity of Some t \<Rightarrow> tok_name t | None \<Rightarrow> None),
                  tm_tokenDescription =
                    (case tokenEntity of Some t \<Rightarrow> tok_description t | None \<Rightarrow> None),
                  tm_tokenImage = (case tokenEntity of Some t \<Rightarrow> tok_image t | None \<Rightarrow> None),
                  tm_tokenCategory =
                    (case tokenEntity of Some t \<Rightarrow> Some (tok_category t) | None \<Rightarrow> None),
                  tm_tokenSubCategory =
                    (case tokenEntity of Some t \<Rightarrow> Some (tok_subCategory t) | None \<Rightarrow> None),
                  tm_rewardId = (case tokenEntity of Some t \<Rightarrow> tok_rewardId t | None \<Rightarrow> None),
                  tm_tokenForgeId =
                    (case tokenEntity of Some t \<Rightarrow> tok_forgeId t | None \<Rightarrow> None)\<rparr>;
          s2 = s1\<lparr>tokenMints := save (mintId event tokenIdString) mint (tokenMints s1)\<rparr>;
          s3 = (case tokenEntity of
                  Some t \<Rightarrow>
                    (let t1 = t\<lparr>tok_currentSupply := tok_currentSupply t + amount\<rparr>
                     in s2\<lparr>tokens := save tokenIdString t1 (tokens s2)\<rparr>)
                | None \<Rightarrow> s2);
          s4 = updateUserBalance to tokenId amount (block_timestamp event) s3;
          inventoryId = toHex to @ ''-'' @ tokenIdString;
          (item0, s5) =
            (case load (userInventoryItems s4) inventoryId of
               Some item \<Rightarrow> (item, s4)
             | None \<Rightarrow>
                 (let (owner, s') = getOrCreateUser to s4
                  in (\<lparr>inv_user = toHex to, inv_token = tokenIdString,
                       inv_balance = 0, inv_firstAcquired = block_timestamp event,
                       inv_tokenType =
                         (case tokenEntity of Some t \<Rightarrow> tok_tokenType t | None \<Rightarrow> 0),
                       inv_category =
                         (case tokenEntity of Some t \<Rightarrow> tok_category t | None \<Rightarrow> ''''),
                       inv_subCategory =
                         (case tokenEntity of Some t \<Rightarrow> tok_subCategory t | None \<Rightarrow> ''''),
                       inv_rewardId =
                         (case tokenEntity of Some t \<Rightarrow> tok_rewardId t | None \<Rightarrow> Some ''''),
                       inv_lastUpdated = 0, inv_lastAcquired = 0\<rparr>, s')));
          item1 = item0\<lparr>inv_balance := inv_balance item0 + amount,
                        inv_lastUpdated := block_timestamp event,
                        inv_lastAcquired := block_timestamp event\<rparr>;
          s6 = s5\<lparr>userInventoryItems := save inventoryId item1 (userInventoryItems s5)\<rparr>;
          (user, s7) = getOrCreateUser to s6;
          user1 = user\<lparr>u_totalTokensMinted := u_totalTokensMinted user + amount,
                       u_lastInteraction := block_timestamp event\<rparr>;
          s8 = s7\<lparr>users := save (toHex to) user1 (users s7)\<rparr>;
          s9 = updateGlobalStats (block_timestamp event) False True False s8;
          s10 = updateDailyStats (block_timestamp event) False True s9;
          allEvent = (baseAllEvent ''TokenMint'' (''Mint of token ID: '' @ tokenIdString) event)
                       \<lparr>ae_toAddress := Some to, ae_amount := Some amount,
                        ae_operator := Some operator, ae_tokenId := Some tokenId\<rparr>
      in s10\<lparr>allEvents := save (eventId event) allEvent (allEvents s10)\<rparr>)"

definition handleTransferSingle :: "TransferSingle \<Rightarrow> entity_store \<Rightarrow> entity_store" where
  "handleTransferSingle event s =
     (let tokenId = ts_id event;
          tokenIdString = toStr tokenId;
          amount = ts_value event;
          to = ts_to event;
          from = ts_from event
      in if toHex from = ZERO_ADDRESS
         then handleTokenMint to tokenId amount (ts_operator event) event s
         else
           (let s1 = updateUserBalance from tokenId (- amount) (block_timestamp event) s;
                s2 = updateUserBalance to tokenId amount (block_timestamp event) s1;
                allEvent = (baseAllEvent ''TransferSingle''
                              (''Single transfer of token ID: '' @ tokenIdString) event)
                             \<lparr>ae_fromAddress := Some from, ae_toAddress := Some to,
                              ae_amount := Some amount,
                              ae_operator := Some (ts_operator event),
                              ae_tokenId := Some tokenId\<rparr>
            in s2\<lparr>allEvents := save (eventId event) allEvent (allEvents s2)\<rparr>))"

text \<open>
  The loop of \<^verbatim>\<open>handleTransferBatch\<close> over \<^verbatim>\<open>ids\<close>, reading
  \<^verbatim>\<open>values[i]\<close> beside \<^verbatim>\<open>ids[i]\<close>: the two lists are consumed together, and
  an id with no value left is the read past the end of \<^verbatim>\<open>values\<close>.
\<close>

fun transferBatchLoop ::
  "TransferBatch \<Rightarrow> BigInt list \<Rightarrow> BigInt list \<Rightarrow> entity_store \<Rightarrow> error + entity_store" where
  "transferBatchLoop event [] vals s = Inr s"
| "transferBatchLoop event (tokenId # ids) [] s = Inl IndexOutOfRange"
| "transferBatchLoop event (tokenId # ids) (amount # vals) s =
     transferBatchLoop event ids vals
       (if toHex (tb_from event) = ZERO_ADDRESS
        then handleTokenMint (tb_to event) tokenId amount (tb_operator event) event s
        else updateUserBalance (tb_to event) tokenId amount (block_timestamp event)
               (updateUserBalance (tb_from event) tokenId (- amount) (block_timestamp event) s))"

definition handleTransferBatch :: "TransferBatch \<Rightarrow> entity_store \<Rightarrow> error + entity_store" where
  "handleTransferBatch event s =
     bindE (transferBatchLoop event (tb_ids event) (tb_values event) s)
       (\<lambda>s1.
          let allEvent = (baseAllEvent ''TransferBatch'' ''Batch transfer of tokens'' event)
                           \<lparr>ae_fromAddress := Some (tb_from event),
                            ae_toAddress := Some (tb_to event),
                            ae_amounts := Some (tb_values event),
                            ae_tokenIds := Some (tb_ids event),
                            ae_operator := Some (tb_operator event)\<rparr>
          in Inr (s1\<lparr>allEvents := save (eventId event) allEvent (allEvents s1)\<rparr>))"

text \<open>
  \<^verbatim>\<open>handleRoleGranted\<close> and \<^verbatim>\<open>handleRoleRevoked\<close> differ in the flag and
  the words only; \<open>roleChanged\<close> is their common body.
\<close>

definition roleChanged ::
  "bool \<Rightarrow> string \<Rightarrow> string \<Rightarrow> Bytes \<Rightarrow> Bytes \<Rightarrow> Bytes \<Rightarrow> 'a Event_scheme \<Rightarrow>
   entity_store \<Rightarrow> entity_store" where
  "roleChanged granted eventType verb role account sender event s =
     (let roleChangeId = eventId event;
          (accountUser, s1) = getOrCreateUser account s;
          roleChange = \<lparr>rc_role = role, rc_roleName = getRoleName role,
                        rc_account = toHex account, rc_sender = sender,
                        rc_granted = granted, rc_timestamp = block_timestamp event,
                        rc_blockNumber = block_number event,
                        rc_transactionHash = tx_hash event\<rparr>;
          s2 = s1\<lparr>roleChanges := save roleChangeId roleChange (roleChanges s1)\<rparr>;
          (user, s3) = getOrCreateUser account s2;
          user1 = user\<lparr>u_lastInteraction := block_timestamp event\<rparr>;
          s4 = s3\<lparr>users := save (toHex account) user1 (users s3)\<rparr>;
          allEvent = (baseAllEvent eventType (verb @ getRoleName role) event)
                       \<lparr>ae_role := Some role, ae_roleHash := Some role,
                        ae_account := Some account, ae_sender := Some sender\<rparr>
      in s4\<lparr>allEvents := save (eventId event) allEvent (allEvents s4)\<rparr>)"

definition handleRoleGranted :: "RoleGranted \<Rightarrow> entity_store \<Rightarrow> entity_store" where
  "handleRoleGranted event s =
     roleChanged True ''RoleGranted'' ''Role granted: ''
       (rg_role event) (rg_account event) (rg_sender event) event s"

definition handleRoleRevoked :: "RoleRevoked \<Rightarrow> entity_store \<Rightarrow> entity_store" where
  "handleRoleRevoked event s =
     roleChanged False ''RoleRevoked'' ''Role revoked: ''
       (rr_role event) (rr_account event) (rr_sender event) event s"

subsection \<open>Applying an ordered event sequence\<close>

text \<open>
  The five event kinds the mapping has a handler for; a mint is a transfer from the zero
  address.
\<close>

datatype event =
    OnTokenCreated TokenCreated
  | OnTransferSingle TransferSingle
  | OnTransferBatch TransferBatch
  | OnRoleGranted RoleGranted
  | OnRoleRevoked RoleRevoked

fun applyEvent :: "env \<Rightarrow> event \<Rightarrow> entity_store \<Rightarrow> error + entity_store" where
  "applyEvent env (OnTokenCreated e) s = handleTokenCreated env e s"
| "applyEvent env (OnTransferSingle e) s = Inr (handleTransferSingle e s)"
| "applyEvent env (OnTransferBatch e) s = handleTransferBatch e s"
| "applyEvent env (OnRoleGranted e) s = Inr (handleRoleGranted e s)"
| "applyEvent env (OnRoleRevoked e) s = Inr (handleRoleRevoked e s)"

text \<open>The events are applied one at a time, in order; a trap stops the run.\<close>

fun applyEvents :: "env \<Rightarrow> event list \<Rightarrow> entity_store \<Rightarrow> error + entity_store" where
  "applyEvents env [] s = Inr s"
| "applyEvents env (e # es) s =
     (case applyEvent env e s of Inl err \<Rightarrow> Inl err | Inr s1 \<Rightarrow> applyEvents env es s1)"

section \<open>Properties of the stored state\<close>

text \<open>
  The balance update of the design, in its words: the current balance of the pair (0 when
  there is no record) plus the delta; a result of zero deletes the record, any other
  result is upserted with the new balance and the timestamp.
\<close>

definition balanceUpdate ::
  "string \<Rightarrow> string \<Rightarrow> BigInt \<Rightarrow> BigInt \<Rightarrow> UserTokenBalance table \<Rightarrow> UserTokenBalance table" where
  "balanceUpdate user token delta timestamp tbl =
     (let key = user @ ''-'' @ token;
          current = (case load tbl key of None \<Rightarrow> 0 | Some b \<Rightarrow> utb_balance b);
          new = current + delta
      in if new = 0 then remove key tbl
         else save key
                ((case load tbl key of
                    None \<Rightarrow> \<lparr>utb_user = user, utb_token = token, utb_balance = 0,
                              utb_lastUpdated = 0\<rparr>
                  | Some b \<Rightarrow> b)\<lparr>utb_balance := new, utb_lastUpdated := timestamp\<rparr>) tbl)"

text \<open>No stored balance record has balance zero.\<close>

definition noZeroBalance :: "entity_store \<Rightarrow> bool" where
  "noZeroBalance s \<longleftrightarrow> (\<forall>(k, b) \<in> set (userTokenBalances s). utb_balance b \<noteq> 0)"

section \<open>Example inputs\<close>

text \<open>A host on which the contract call reverts and nothing can be retrieved.\<close>

definition hostNone :: env where
  "hostNone = \<lparr>try_uri = (\<lambda>a t. None), http_get = (\<lambda>u. None), ipfs_cat = (\<lambda>h. None),
               json_try_fromBytes = (\<lambda>b. None)\<rparr>"

text \<open>
  A host whose HTTP endpoint answers 200 with the body \<^verbatim>\<open>[]\<close>, which parses to an
  empty JSON array.
\<close>

definition hostArray :: env where
  "hostArray =
     \<lparr>try_uri = (\<lambda>a t. Some ''http://example.org/42.json''),
      http_get = (\<lambda>u. Some \<lparr>status = 200, body = [91, 93]\<rparr>),
      ipfs_cat = (\<lambda>h. None),
      json_try_fromBytes = (\<lambda>b. if b = [91, 93] then Some (JArray []) else None)\<rparr>"

definition zeroAddr :: Bytes where
  "zeroAddr = [0, 0, 0, 0, 0, 0, 0, 0, 0, 0, 0, 0, 0, 0, 0, 0, 0, 0, 0, 0]"

definition addrA :: Bytes where
  "addrA = [0, 0, 0, 0, 0, 0, 0, 0, 0, 0, 0, 0, 0, 0, 0, 0, 0, 0, 0, 161]"

definition addrB :: Bytes where
  "addrB = [0, 0, 0, 0, 0, 0, 0, 0, 0, 0, 0, 0, 0, 0, 0, 0, 0, 0, 0, 178]"

definition txHash1 :: Bytes where
  "txHash1 = [171, 0, 0, 0, 0, 0, 0, 0, 0, 0, 0, 0, 0, 0, 0, 0,
              0, 0, 0, 0, 0, 0, 0, 0, 0, 0, 0, 0, 0, 0, 0, 1]"

text \<open>
  A mint of 5 units of token 42 to A, a transfer of the 5 units from A to B, and the
  creation of token 42.
\<close>

definition mintEv :: TransferSingle where
  "mintEv =
     \<lparr>ev_address = addrB, ev_logIndex = 3, block_number = 100, block_timestamp = 1700000000,
      block_hash = txHash1, tx_hash = txHash1, tx_index = 0, tx_from = addrA, tx_to = None,
      tx_value = 0, tx_gasPrice = 1,
      ts_operator = addrA, ts_from = zeroAddr, ts_to = addrA, ts_id = 42, ts_value = 5\<rparr>"

definition xferEv :: TransferSingle where
  "xferEv =
     \<lparr>ev_address = addrB, ev_logIndex = 4, block_number = 101, block_timestamp = 1700000100,
      block_hash = txHash1, tx_hash = txHash1, tx_index = 0, tx_from = addrA, tx_to = None,
      tx_value = 0, tx_gasPrice = 1,
      ts_operator = addrA, ts_from = addrA, ts_to = addrB, ts_id = 42, ts_value = 5\<rparr>"

definition createEv :: TokenCreated where
  "createEv =
     \<lparr>ev_address = addrB, ev_logIndex = 5, block_number = 102, block_timestamp = 1700000200,
      block_hash = txHash1, tx_hash = txHash1, tx_index = 0, tx_from = addrA, tx_to = None,
      tx_value = 0, tx_gasPrice = 1,
      p_tokenId = 42, p_tokenType = 1, p_category = ''badge'', p_subCategory = ''gold''\<rparr>"

section \<open>Properties of the metadata resolver and of the counters\<close>

text \<open>
  The bytes a URI leads to, when the retrieval succeeds: the body of an HTTP response with
  status 200, or the IPFS content under the hash.
\<close>

definition retrievedContent :: "env \<Rightarrow> string \<Rightarrow> Bytes option" where
  "retrievedContent env uri =
     (if startsWith uri ''http'' then
        (case http_get env uri of
           Some response \<Rightarrow> (if status response = 200 then Some (body response) else None)
         | None \<Rightarrow> None)
      else if startsWith uri ''ipfs://'' then ipfs_cat env (ipfsHash uri)
      else None)"

text \<open>
  The content behind an optional URI is absent or does not parse as JSON.
\<close>

definition unparsable :: "env \<Rightarrow> string option \<Rightarrow> bool" where
  "unparsable env tokenURI =
     (case tokenURI of
        None \<Rightarrow> True
      | Some uri \<Rightarrow>
          (case retrievedContent env uri of
             None \<Rightarrow> True
           | Some bytes \<Rightarrow> json_try_fromBytes env bytes = None))"

text \<open>A counter of the single \<^verbatim>\<open>GlobalStats\<close> row, of a user, of a day; 0 without a row.\<close>

definition globalCount :: "(GlobalStats \<Rightarrow> BigInt) \<Rightarrow> entity_store \<Rightarrow> BigInt" where
  "globalCount f s = (case load (globalStats s) ''1'' of None \<Rightarrow> 0 | Some g \<Rightarrow> f g)"

definition userCount :: "(User \<Rightarrow> BigInt) \<Rightarrow> entity_store \<Rightarrow> string \<Rightarrow> BigInt" where
  "userCount f s userId = (case load (users s) userId of None \<Rightarrow> 0 | Some u \<Rightarrow> f u)"

definition dailyCount :: "(DailyStats \<Rightarrow> BigInt) \<Rightarrow> entity_store \<Rightarrow> string \<Rightarrow> BigInt" where
  "dailyCount f s date = (case load (dailyStats s) date of None \<Rightarrow> 0 | Some d \<Rightarrow> f d)"

text \<open>A store that holds token 42, as its creation on \<open>hostNone\<close> leaves it.\<close>

definition token42 :: Token where
  "token42 =
     \<lparr>tok_tokenId = 42, tok_tokenType = 1, tok_category = ''badge'',
      tok_subCategory = ''gold'', tok_soulbound = False, tok_maxSupply = 0,
      tok_currentSupply = 0, tok_creator = addrA, tok_createdAt = 1700000200,
      tok_createdAtBlock = 102, tok_createdTxHash = txHash1, tok_tokenURI = None,
      tok_metadata = Some ''42'', tok_name = Some ''Token 42'',
      tok_description = Some ''Description for token 42'', tok_image = Some '''',
      tok_rewardId = Some '''', tok_forgeId = None\<rparr>"

definition store42 :: entity_store where
  "store42 = emptyStore\<lparr>tokens := [(''42'', token42)]\<rparr>"

text \<open>
  The store after the creation event of token 42 on \<open>hostNone\<close>, and after the same
  event is delivered to it once more.
\<close>

definition afterCreate :: entity_store where
  "afterCreate = projr (handleTokenCreated hostNone createEv emptyStore)"

definition afterRedelivery :: entity_store where
  "afterRedelivery = projr (handleTokenCreated hostNone createEv afterCreate)"

section \<open>Properties of the journal and of transfers\<close>

text \<open>The ids of the journal entries and of the mint records, in insertion order.\<close>

definition journalIds :: "entity_store \<Rightarrow> string list" where
  "journalIds s = map fst (allEvents s)"

definition journalTypes :: "entity_store \<Rightarrow> string list" where
  "journalTypes s = map (\<lambda>p. ae_eventType (snd p)) (allEvents s)"

definition mintIds :: "entity_store \<Rightarrow> string list" where
  "mintIds s = map fst (tokenMints s)"


text \<open>The id under which the handler of an event saves the journal entry of the event.\<close>

fun journalId :: "event \<Rightarrow> string" where
  "journalId (OnTokenCreated e) = eventId e"
| "journalId (OnTransferSingle e) = eventId e"
| "journalId (OnTransferBatch e) = eventId e"
| "journalId (OnRoleGranted e) = eventId e"
| "journalId (OnRoleRevoked e) = eventId e"


text \<open>A batch mint of 5 units of token 1 and 7 units of token 2 to A.\<close>

definition batchMintEv :: TransferBatch where
  "batchMintEv =
     \<lparr>ev_address = addrB, ev_logIndex = 7, block_number = 103, block_timestamp = 1700000300,
      block_hash = txHash1, tx_hash = txHash1, tx_index = 0, tx_from = addrA, tx_to = None,
      tx_value = 0, tx_gasPrice = 1,
      tb_operator = addrA, tb_from = zeroAddr, tb_to = addrA, tb_ids = [1, 2],
      tb_values = [5, 7]\<rparr>"


section \<open>Properties of the global counters\<close>

text \<open>The \<^verbatim>\<open>GlobalStats\<close> collection after one call of \<^verbatim>\<open>updateGlobalStats\<close>.\<close>

definition statsStep ::
  "BigInt \<Rightarrow> bool \<Rightarrow> bool \<Rightarrow> bool \<Rightarrow> GlobalStats table \<Rightarrow> GlobalStats table" where
  "statsStep timestamp incrementTokens incrementMints incrementUsers tbl =
     globalStats (updateGlobalStats timestamp incrementTokens incrementMints incrementUsers
                    (emptyStore\<lparr>globalStats := tbl\<rparr>))"





text \<open>
  The counters after \<open>c\<close> calls of \<^verbatim>\<open>updateGlobalStats\<close> with the token flag,
  \<open>m\<close> calls with the mint flag and \<open>n\<close> calls with the user flag: each call adds
  one to its own counter and one to the event counter.
\<close>

fun addCalls ::
  "nat \<Rightarrow> nat \<Rightarrow> nat \<Rightarrow> BigInt \<times> BigInt \<times> BigInt \<times> BigInt \<Rightarrow>
   BigInt \<times> BigInt \<times> BigInt \<times> BigInt" where
  "addCalls c m n (tk, mt, us, ev) =
     (tk + int c, mt + int m, us + int n, ev + int c + int m + int n)"



text \<open>How many of these users the store does not hold yet.\<close>

definition newUsersOf :: "entity_store \<Rightarrow> string list \<Rightarrow> nat" where
  "newUsersOf s us = length (remdups (filter (\<lambda>u. load (users s) u = None) us))"




section \<open>Properties of balances and supply\<close>

text \<open>The sum of the balances of all balance records of a token.\<close>

definition tableSum :: "UserTokenBalance table \<Rightarrow> string \<Rightarrow> BigInt" where
  "tableSum tbl tok =
     sum_list (map (\<lambda>p. if utb_token (snd p) = tok then utb_balance (snd p) else 0) tbl)"

definition balanceSum :: "entity_store \<Rightarrow> string \<Rightarrow> BigInt" where
  "balanceSum s tok = tableSum (userTokenBalances s) tok"

text \<open>The current supply of a token, when the Token exists.\<close>

definition tokenSupply :: "entity_store \<Rightarrow> string \<Rightarrow> BigInt option" where
  "tokenSupply s tok = map_option tok_currentSupply (load (tokens s) tok)"

text \<open>The token ids an event mints: those of a transfer from the zero address.\<close>

fun eventMints :: "event \<Rightarrow> BigInt list" where
  "eventMints (OnTransferSingle e) = (if toHex (ts_from e) = ZERO_ADDRESS then [ts_id e] else [])"
| "eventMints (OnTransferBatch e) = (if toHex (tb_from e) = ZERO_ADDRESS then tb_ids e else [])"
| "eventMints ev = []"

text \<open>Every token the event mints has its Token in the store.\<close>

definition mintsKnown :: "entity_store \<Rightarrow> event \<Rightarrow> bool" where
  "mintsKnown s ev = list_all (\<lambda>t. load (tokens s) (toStr t) \<noteq> None) (eventMints ev)"

text \<open>
  The same along a run: each event of the sequence mints only tokens whose Token is in
  the store when the event is applied, that is, tokens created earlier in the sequence.
\<close>

fun mintsKnownAlong :: "env \<Rightarrow> event list \<Rightarrow> entity_store \<Rightarrow> bool" where
  "mintsKnownAlong env [] s = True"
| "mintsKnownAlong env (e # es) s =
     (mintsKnown s e \<and>
      (case applyEvent env e s of Inl err \<Rightarrow> True | Inr s1 \<Rightarrow> mintsKnownAlong env es s1))"

text \<open>
  The token part of a balance id, the text after the first dash. The stored records agree
  with their ids, and no id occurs twice.
\<close>

definition keyToken :: "string \<Rightarrow> string" where
  "keyToken k = tl (dropWhile (\<lambda>c. c \<noteq> CHR ''-'') k)"

definition wfBalances :: "UserTokenBalance table \<Rightarrow> bool" where
  "wfBalances tbl \<longleftrightarrow>
     distinct (map fst tbl) \<and> (\<forall>p\<in>set tbl. utb_token (snd p) = keyToken (fst p))"

text \<open>
  Conservation in its inductive form: for every token id the balances sum to the supply
  of the Token, and to 0 where there is no Token.
\<close>

definition conserved :: "entity_store \<Rightarrow> bool" where
  "conserved s \<longleftrightarrow>
     wfBalances (userTokenBalances s) \<and>
     (\<forall>tok. balanceSum s tok = (case tokenSupply s tok of None \<Rightarrow> 0 | Some n \<Rightarrow> n))"

text \<open>
  Two runs on \<open>hostNone\<close>: the mint of token 42 before its creation, and the creation of
  token 42 followed by the mint and the transfer.
\<close>

definition mintThenCreate :: "event list" where
  "mintThenCreate = [OnTransferSingle mintEv, OnTokenCreated createEv]"

definition createMintTransfer :: "event list" where
  "createMintTransfer = [OnTokenCreated createEv, OnTransferSingle mintEv, OnTransferSingle xferEv]"

section \<open>Results for the development server\<close>

lemma compareEvents_le: "compareEvents a b \<le> 0 \<longleftrightarrow> before_eq a b"
  by (auto simp: compareEvents_def before_eq_def)

lemma before_eq_total: "\<not> before_eq a b \<Longrightarrow> before_eq b a"
  by (auto simp: before_eq_def)

lemma before_eq_trans: "before_eq a b \<Longrightarrow> before_eq b c \<Longrightarrow> before_eq a c"
  by (auto simp: before_eq_def)

lemma set_insertBy: "set (insertBy cmp x ys) = insert x (set ys)"
  by (induction ys) auto

lemma mset_insertBy: "mset (insertBy cmp x ys) = add_mset x (mset ys)"
  by (induction ys) auto

lemma sorted_insertBy:
  "sorted_wrt before_eq ys \<Longrightarrow> sorted_wrt before_eq (insertBy compareEvents x ys)"
proof (induction ys)
  case Nil
  then show ?case by simp
next
  case (Cons y ys)
  show ?case
  proof (cases "compareEvents x y \<le> 0")
    case True
    then have xy: "before_eq x y" by (simp add: compareEvents_le)
    have "\<forall>z\<in>set ys. before_eq x z"
      using Cons.prems xy before_eq_trans by auto
    with True xy Cons.prems show ?thesis by simp
  next
    case False
    then have yx: "before_eq y x"
      using before_eq_total compareEvents_le by blast
    with False Cons show ?thesis by (auto simp: set_insertBy)
  qed
qed

lemma filter_insertBy:
  "sorted_wrt before_eq ys \<Longrightarrow>
   filter (\<lambda>e. orderKey e = k) (insertBy compareEvents x ys) =
   filter (\<lambda>e. orderKey e = k) (x # ys)"
proof (induction ys)
  case Nil
  then show ?case by simp
next
  case (Cons y ys)
  show ?case
  proof (cases "compareEvents x y \<le> 0")
    case True
    then show ?thesis by simp
  next
    case False
    then have "orderKey x \<noteq> orderKey y"
      by (auto simp: compareEvents_def orderKey_def split: if_splits)
    with False Cons show ?thesis by auto
  qed
qed

lemma sorted_js_sort: "sorted_wrt before_eq (js_sort compareEvents xs)"
  unfolding js_sort_def by (induction xs) (simp_all add: sorted_insertBy)

lemma mset_js_sort: "mset (js_sort cmp xs) = mset xs"
  unfolding js_sort_def by (induction xs) (simp_all add: mset_insertBy)

lemma filter_js_sort:
  "filter (\<lambda>e. orderKey e = k) (js_sort compareEvents xs) = filter (\<lambda>e. orderKey e = k) xs"
proof (induction xs)
  case Nil
  then show ?case by (simp add: js_sort_def)
next
  case (Cons x xs)
  have "js_sort compareEvents (x # xs) = insertBy compareEvents x (js_sort compareEvents xs)"
    by (simp add: js_sort_def)
  then show ?case
    using Cons filter_insertBy [OF sorted_js_sort, of k x xs] by simp
qed

text \<open>
  What the sort does give: the sequence is ordered by block number and then by what the
  comparator reads as log index, it holds exactly the events of the five lists it merges,
  and events the comparator cannot tell apart keep the order of the merge.
\<close>

lemma allEventsSorted_by_comparator:
  "sorted_wrt before_eq (allEventsSorted er) \<and>
   mset (allEventsSorted er) = mset (combined er) \<and>
   filter (\<lambda>e. orderKey e = k) (allEventsSorted er) = filter (\<lambda>e. orderKey e = k) (combined er)"
  unfolding allEventsSorted_def
  using sorted_js_sort mset_js_sort filter_js_sort by blast

text \<open>
  Claim C6. On the three logs of block 100 the orderer returns the creation (log 5) before
  the transfer (log 1): no log has a \<^verbatim>\<open>logIndex\<close>, the comparator reads 0 for
  both, and the stable sort leaves them in the order of the merge, which is the order of
  the event kinds. The sequence is not ordered by log index within the block, and the
  \<^verbatim>\<open>TokenMinted\<close> log is not in it. On objects that have a \<^verbatim>\<open>logIndex\<close> the
  same two logs come out in the order of the log index, after the log of the earlier block.
\<close>

theorem C6_same_block_in_merge_order:
  "blockNumber createdLog = blockNumber transferLog \<and>
   index transferLog < index createdLog \<and>
   logIndex createdLog = None \<and> logIndex transferLog = None \<and>
   allEventsSorted sameBlockResults = [createdLog, transferLog] \<and>
   map index (allEventsSorted sameBlockResults) = [5, 1] \<and>
   mintedLog \<notin> set (allEventsSorted sameBlockResults) \<and>
   allEventsSorted indexedResults =
     [roleLog, transferLog\<lparr>logIndex := Some 1\<rparr>, createdLog\<lparr>logIndex := Some 5\<rparr>]"
  by (simp add: allEventsSorted_def combined_def js_sort_def compareEvents_def orZero_def
      sameBlockResults_def indexedResults_def createdLog_def transferLog_def mintedLog_def
      roleLog_def)

text \<open>
  The loop covers every block below the chain height. The height itself is never covered
  when its distance from the start is a multiple of \<open>maxBlockRange + 1\<close>, the start
  being the height included.
\<close>

lemma chunkRanges_covers_below:
  "f \<le> b \<Longrightarrow> b < c \<Longrightarrow> covered (chunkRanges f c) b"
proof (induction f c rule: chunkRanges.induct)
  case (1 f c)
  from "1.prems" have fc: "f < c" by simp
  let ?to = "min (f + maxBlockRange) c"
  have u: "chunkRanges f c = (f, ?to) # chunkRanges (?to + 1) c"
    using fc by (subst chunkRanges.simps) (simp add: Let_def)
  show ?case
  proof (cases "b \<le> ?to")
    case True
    with "1.prems" show ?thesis unfolding u by (simp add: covered_def)
  next
    case False
    with "1.prems"(2) have "?to + 1 \<le> b" by (simp add: min_def split: if_splits)
    from "1.IH" [OF fc refl this "1.prems"(2)] show ?thesis
      unfolding u by (simp add: covered_def)
  qed
qed

lemma chunkRanges_misses_last:
  "\<not> covered (chunkRanges f (f + int k * (maxBlockRange + 1))) (f + int k * (maxBlockRange + 1))"
proof (induction k arbitrary: f)
  case 0
  show ?case by (simp add: chunkRanges.simps [of f] covered_def)
next
  case (Suc k)
  let ?c = "f + int (Suc k) * (maxBlockRange + 1)"
  have c: "?c = (f + maxBlockRange + 1) + int k * (maxBlockRange + 1)"
    by (simp add: algebra_simps)
  have m: "0 \<le> int k * (maxBlockRange + 1)"
    by (simp add: maxBlockRange_def)
  then have lt: "f + maxBlockRange < ?c" unfolding c by linarith
  then have fc: "f < ?c" by (simp add: maxBlockRange_def)
  have mn: "min (f + maxBlockRange) ?c = f + maxBlockRange"
    using lt by simp
  have u: "chunkRanges f ?c = (f, f + maxBlockRange) # chunkRanges (f + maxBlockRange + 1) ?c"
    using fc mn by (subst chunkRanges.simps) (simp add: Let_def)
  from Suc.IH [of "f + maxBlockRange + 1"]
  have "\<not> covered (chunkRanges (f + maxBlockRange + 1) ?c) ?c"
    unfolding c .
  with lt show ?case
    unfolding u by (simp add: covered_def)
qed

text \<open>
  Claim C7. With the chain height at \<^verbatim>\<open>startBlock + 45001\<close> the loop issues the
  single range from 29970000 to 30015000 and stops, because the next start equals the
  height and the loop condition is strict: block 30015001 of the requested range is in no
  issued sub-range.
\<close>

theorem C7_last_block_not_covered:
  "startBlock \<le> 30015001 \<and>
   chunkRanges startBlock 30015001 = [(29970000, 30015000)] \<and>
   \<not> covered (chunkRanges startBlock 30015001) 30015001"
proof -
  have 1: "chunkRanges startBlock 30015001 = [(29970000, 30015000)]"
    by (simp add: chunkRanges.simps [of 29970000] chunkRanges.simps [of 30015001]
        startBlock_def maxBlockRange_def)
  show ?thesis
    unfolding 1 by (simp add: covered_def startBlock_def)
qed

section \<open>Results for the mapping: tables and frames\<close>

lemma load_save: "load (save k v t) k' = (if k' = k then Some v else load t k')"
  by (induction t) (auto simp: load_def)

lemma load_remove: "load (remove k t) k' = (if k' = k then None else load t k')"
  by (induction t) (auto simp: load_def remove_def)

lemma load_Nil [simp]: "load [] k = None"
  by (simp add: load_def)

lemma set_save_subset: "set (save k v t) \<subseteq> insert (k, v) (set t)"
  by (induction t) auto

lemma set_remove_subset: "set (remove k t) \<subseteq> set t"
  by (auto simp: remove_def)

lemma keys_save: "set (map fst (save k v t)) = insert k (set (map fst t))"
  by (induction t) auto

lemma updateGlobalStats_frame [simp]:
  "tokens (updateGlobalStats ts a b c s) = tokens s"
  "tokenCreations (updateGlobalStats ts a b c s) = tokenCreations s"
  "tokenMints (updateGlobalStats ts a b c s) = tokenMints s"
  "users (updateGlobalStats ts a b c s) = users s"
  "userTokenBalances (updateGlobalStats ts a b c s) = userTokenBalances s"
  "userInventoryItems (updateGlobalStats ts a b c s) = userInventoryItems s"
  "roleChanges (updateGlobalStats ts a b c s) = roleChanges s"
  "dailyStats (updateGlobalStats ts a b c s) = dailyStats s"
  "tokenMetadatas (updateGlobalStats ts a b c s) = tokenMetadatas s"
  "tokenProperties (updateGlobalStats ts a b c s) = tokenProperties s"
  "tokenAttributes (updateGlobalStats ts a b c s) = tokenAttributes s"
  "allEvents (updateGlobalStats ts a b c s) = allEvents s"
  by (simp_all add: updateGlobalStats_def Let_def)

lemma updateDailyStats_frame [simp]:
  "tokens (updateDailyStats ts a b s) = tokens s"
  "tokenCreations (updateDailyStats ts a b s) = tokenCreations s"
  "tokenMints (updateDailyStats ts a b s) = tokenMints s"
  "users (updateDailyStats ts a b s) = users s"
  "userTokenBalances (updateDailyStats ts a b s) = userTokenBalances s"
  "userInventoryItems (updateDailyStats ts a b s) = userInventoryItems s"
  "roleChanges (updateDailyStats ts a b s) = roleChanges s"
  "globalStats (updateDailyStats ts a b s) = globalStats s"
  "tokenMetadatas (updateDailyStats ts a b s) = tokenMetadatas s"
  "tokenProperties (updateDailyStats ts a b s) = tokenProperties s"
  "tokenAttributes (updateDailyStats ts a b s) = tokenAttributes s"
  "allEvents (updateDailyStats ts a b s) = allEvents s"
  by (simp_all add: updateDailyStats_def Let_def)

lemma getOrCreateUser_frame [simp]:
  "tokens (snd (getOrCreateUser a s)) = tokens s"
  "tokenCreations (snd (getOrCreateUser a s)) = tokenCreations s"
  "tokenMints (snd (getOrCreateUser a s)) = tokenMints s"
  "userTokenBalances (snd (getOrCreateUser a s)) = userTokenBalances s"
  "userInventoryItems (snd (getOrCreateUser a s)) = userInventoryItems s"
  "roleChanges (snd (getOrCreateUser a s)) = roleChanges s"
  "dailyStats (snd (getOrCreateUser a s)) = dailyStats s"
  "tokenMetadatas (snd (getOrCreateUser a s)) = tokenMetadatas s"
  "tokenProperties (snd (getOrCreateUser a s)) = tokenProperties s"
  "tokenAttributes (snd (getOrCreateUser a s)) = tokenAttributes s"
  "allEvents (snd (getOrCreateUser a s)) = allEvents s"
  by (simp_all add: getOrCreateUser_def Let_def split_def split: option.splits)

lemma updateUserBalance_frame [simp]:
  "tokens (updateUserBalance a t m ts s) = tokens s"
  "tokenCreations (updateUserBalance a t m ts s) = tokenCreations s"
  "tokenMints (updateUserBalance a t m ts s) = tokenMints s"
  "userInventoryItems (updateUserBalance a t m ts s) = userInventoryItems s"
  "roleChanges (updateUserBalance a t m ts s) = roleChanges s"
  "dailyStats (updateUserBalance a t m ts s) = dailyStats s"
  "tokenMetadatas (updateUserBalance a t m ts s) = tokenMetadatas s"
  "tokenProperties (updateUserBalance a t m ts s) = tokenProperties s"
  "tokenAttributes (updateUserBalance a t m ts s) = tokenAttributes s"
  "allEvents (updateUserBalance a t m ts s) = allEvents s"
  by (simp_all add: updateUserBalance_def Let_def split_def)

lemma updateUserBalance_balances:
  "userTokenBalances (updateUserBalance a t m ts s) =
   balanceUpdate (toHex a) (toStr t) m ts (userTokenBalances s)"
  by (simp add: updateUserBalance_def balanceUpdate_def Let_def split_def split: option.splits)

lemma handleTokenMint_balances:
  "userTokenBalances (handleTokenMint to t m op ev s) =
   balanceUpdate (toHex to) (toStr t) m (block_timestamp ev) (userTokenBalances s)"
  by (simp add: handleTokenMint_def Let_def split_def updateUserBalance_balances
      split: option.splits)

lemma handleTransferSingle_balances:
  "userTokenBalances (handleTransferSingle ev s) =
   (if toHex (ts_from ev) = ZERO_ADDRESS
    then balanceUpdate (toHex (ts_to ev)) (toStr (ts_id ev)) (ts_value ev) (block_timestamp ev)
           (userTokenBalances s)
    else balanceUpdate (toHex (ts_to ev)) (toStr (ts_id ev)) (ts_value ev) (block_timestamp ev)
           (balanceUpdate (toHex (ts_from ev)) (toStr (ts_id ev)) (- ts_value ev)
              (block_timestamp ev) (userTokenBalances s)))"
  by (simp add: handleTransferSingle_def Let_def handleTokenMint_balances
      updateUserBalance_balances)

lemma roleChanged_frame [simp]:
  "tokens (roleChanged g et vb r a sd ev s) = tokens s"
  "userTokenBalances (roleChanged g et vb r a sd ev s) = userTokenBalances s"
  by (simp_all add: roleChanged_def Let_def split_def)


lemma fetchAndParseMetadata_frame:
  assumes "fetchAndParseMetadata env i u s = Inr (r, s1)"
  shows "tokens s1 = tokens s" "tokenCreations s1 = tokenCreations s"
    "tokenMints s1 = tokenMints s" "users s1 = users s"
    "userTokenBalances s1 = userTokenBalances s"
    "userInventoryItems s1 = userInventoryItems s" "roleChanges s1 = roleChanges s"
    "globalStats s1 = globalStats s" "dailyStats s1 = dailyStats s"
    "allEvents s1 = allEvents s"
  using assms
  by (auto simp: fetchAndParseMetadata_def Let_def bindE_def
      split: option.splits sum.splits if_splits prod.splits)

lemma createToken_frame:
  assumes "createToken env ev s = Inr s1"
  shows "tokenCreations s1 = tokenCreations s"
    "tokenMints s1 = tokenMints s" "users s1 = users s"
    "userTokenBalances s1 = userTokenBalances s"
    "userInventoryItems s1 = userInventoryItems s" "roleChanges s1 = roleChanges s"
    "globalStats s1 = globalStats s" "dailyStats s1 = dailyStats s"
    "allEvents s1 = allEvents s"
  using assms
  by (auto simp: createToken_def Let_def bindE_def
      split: option.splits sum.splits prod.splits dest: fetchAndParseMetadata_frame)

lemma createToken_tokens:
  assumes "createToken env ev s = Inr s1"
  shows "\<exists>tk. tokens s1 = save (toStr (p_tokenId ev)) tk (tokens s) \<and> tok_currentSupply tk = 0"
proof -
  from assms obtain r s0 where
    f: "fetchAndParseMetadata env (toStr (p_tokenId ev))
          (try_uri env (ev_address ev) (p_tokenId ev)) s = Inr (r, s0)"
    by (auto simp: createToken_def Let_def bindE_def split: sum.splits)
  have t: "tokens s0 = tokens s"
    using f by (rule fetchAndParseMetadata_frame(1))
  from assms f t show ?thesis
    by (auto simp: createToken_def Let_def bindE_def split: option.splits)
qed

lemma recordCreation_frame [simp]:
  "tokens (recordCreation ev s) = tokens s"
  "userTokenBalances (recordCreation ev s) = userTokenBalances s"
  "tokenMetadatas (recordCreation ev s) = tokenMetadatas s"
  "tokenProperties (recordCreation ev s) = tokenProperties s"
  "tokenAttributes (recordCreation ev s) = tokenAttributes s"
  "tokenMints (recordCreation ev s) = tokenMints s"
  by (simp_all add: recordCreation_def Let_def split_def)

lemma handleTokenCreated_balances:
  assumes "handleTokenCreated env ev s = Inr s1"
  shows "userTokenBalances s1 = userTokenBalances s"
  using assms
  by (auto simp: handleTokenCreated_def bindE_def split: option.splits sum.splits
      dest: createToken_frame(4))

lemma transferBatchLoop_balances_pres:
  assumes step: "\<And>u t d ts tbl. P tbl \<Longrightarrow> P (balanceUpdate u t d ts tbl)"
  shows "P (userTokenBalances s) \<Longrightarrow> transferBatchLoop ev ids vals s = Inr s1 \<Longrightarrow>
         P (userTokenBalances s1)"
proof (induction ev ids vals s rule: transferBatchLoop.induct)
  case (1 event vals s)
  then show ?case by simp
next
  case (2 event tokenId ids s)
  then show ?case by simp
next
  case (3 event tokenId ids amount vals s)
  show ?case
  proof (rule "3.IH")
    show "P (userTokenBalances
              (if toHex (tb_from event) = ZERO_ADDRESS
               then handleTokenMint (tb_to event) tokenId amount (tb_operator event) event s
               else updateUserBalance (tb_to event) tokenId amount (block_timestamp event)
                      (updateUserBalance (tb_from event) tokenId (- amount)
                         (block_timestamp event) s)))"
      using "3.prems"(1) step
      by (simp add: handleTokenMint_balances updateUserBalance_balances)
    show "transferBatchLoop event ids vals
            (if toHex (tb_from event) = ZERO_ADDRESS
             then handleTokenMint (tb_to event) tokenId amount (tb_operator event) event s
             else updateUserBalance (tb_to event) tokenId amount (block_timestamp event)
                    (updateUserBalance (tb_from event) tokenId (- amount)
                       (block_timestamp event) s)) = Inr s1"
      using "3.prems"(2) by simp
  qed
qed

lemma applyEvent_balances_pres:
  assumes step: "\<And>u t d ts tbl. P tbl \<Longrightarrow> P (balanceUpdate u t d ts tbl)"
    and "P (userTokenBalances s)" and "applyEvent env ev s = Inr s1"
  shows "P (userTokenBalances s1)"
proof (cases ev)
  case (OnTokenCreated e)
  with assms show ?thesis by (simp add: handleTokenCreated_balances)
next
  case (OnTransferSingle e)
  with assms show ?thesis by (auto simp: handleTransferSingle_balances)
next
  case (OnTransferBatch e)
  with assms(3) obtain s0 where l: "transferBatchLoop e (tb_ids e) (tb_values e) s = Inr s0"
    and s1: "userTokenBalances s1 = userTokenBalances s0"
    by (auto simp: handleTransferBatch_def bindE_def Let_def split: sum.splits)
  from transferBatchLoop_balances_pres [of P, OF step assms(2) l] s1 show ?thesis by simp
next
  case (OnRoleGranted e)
  with assms show ?thesis by (auto simp: handleRoleGranted_def)
next
  case (OnRoleRevoked e)
  with assms show ?thesis by (auto simp: handleRoleRevoked_def)
qed

lemma applyEvents_balances_pres:
  assumes step: "\<And>u t d ts tbl. P tbl \<Longrightarrow> P (balanceUpdate u t d ts tbl)"
  shows "P (userTokenBalances s) \<Longrightarrow> applyEvents env evs s = Inr s1 \<Longrightarrow> P (userTokenBalances s1)"
proof (induction evs arbitrary: s)
  case Nil
  then show ?case by simp
next
  case (Cons e es)
  from Cons.prems(2) obtain s0 where e: "applyEvent env e s = Inr s0"
    and es: "applyEvents env es s0 = Inr s1"
    by (auto split: sum.splits)
  from applyEvent_balances_pres [of P, OF step Cons.prems(1) e] have "P (userTokenBalances s0)" .
  then show ?case using Cons.IH es by blast
qed

lemma balanceUpdate_noZero:
  assumes "\<forall>(k, b) \<in> set tbl. utb_balance b \<noteq> 0"
  shows "\<forall>(k, b) \<in> set (balanceUpdate u t d ts tbl). utb_balance b \<noteq> 0"
proof (cases "(case load tbl (u @ ''-'' @ t) of None \<Rightarrow> 0 | Some b \<Rightarrow> utb_balance b) + d = 0")
  case True
  then have "balanceUpdate u t d ts tbl = remove (u @ ''-'' @ t) tbl"
    by (simp add: balanceUpdate_def Let_def)
  with assms set_remove_subset show ?thesis by fastforce
next
  case False
  then obtain r where r: "balanceUpdate u t d ts tbl = save (u @ ''-'' @ t) r tbl"
    and nz: "utb_balance r \<noteq> 0"
    by (simp add: balanceUpdate_def Let_def)
  have "set (save (u @ ''-'' @ t) r tbl) \<subseteq> insert (u @ ''-'' @ t, r) (set tbl)"
    by (rule set_save_subset)
  with assms nz show ?thesis unfolding r by fastforce
qed

text \<open>
  Claim C2. The balance table after \<^verbatim>\<open>updateUserBalance\<close> is the one the balance
  update of the design gives (current plus delta, delete on zero, otherwise upsert with
  the new balance and the timestamp), and in every state reached from the empty store by
  a sequence of events no balance record has balance zero.
\<close>

theorem C2_no_zero_balance:
  "userTokenBalances (updateUserBalance address tokenId amount timestamp s) =
     balanceUpdate (toHex address) (toStr tokenId) amount timestamp (userTokenBalances s) \<and>
   (applyEvents env evs emptyStore = Inr s1 \<longrightarrow> noZeroBalance s1)"
proof
  show "userTokenBalances (updateUserBalance address tokenId amount timestamp s) =
     balanceUpdate (toHex address) (toStr tokenId) amount timestamp (userTokenBalances s)"
    by (rule updateUserBalance_balances)
  show "applyEvents env evs emptyStore = Inr s1 \<longrightarrow> noZeroBalance s1"
  proof
    assume run: "applyEvents env evs emptyStore = Inr s1"
    have "\<forall>(k, b) \<in> set (userTokenBalances emptyStore). utb_balance b \<noteq> 0"
      by (simp add: emptyStore_def)
    from applyEvents_balances_pres
      [of "\<lambda>tbl. \<forall>(k, b) \<in> set tbl. utb_balance b \<noteq> 0", OF balanceUpdate_noZero this run]
    show "noZeroBalance s1" by (simp add: noZeroBalance_def)
  qed
qed

section \<open>Results for the mapping: the example inputs\<close>

lemma toHex_zeroAddr: "toHex zeroAddr = ZERO_ADDRESS"
  by (simp add: toHex_def zeroAddr_def hexByte_def digitChars_def ZERO_ADDRESS_def)

lemma toHex_addrA: "toHex addrA = ''0x00000000000000000000000000000000000000a1''"
  by (simp add: toHex_def addrA_def hexByte_def digitChars_def)

lemma toHex_addrB: "toHex addrB = ''0x00000000000000000000000000000000000000b2''"
  by (simp add: toHex_def addrB_def hexByte_def digitChars_def)

lemma toHex_txHash1:
  "toHex txHash1 = ''0xab00000000000000000000000000000000000000000000000000000000000001''"
  by (simp add: toHex_def txHash1_def hexByte_def digitChars_def)

lemma toStr_42: "toStr 42 = ''42''"
  by (simp add: toStr_def natToString.simps digitChars_def)

lemma example_balances:
  "userTokenBalances (handleTransferSingle xferEv (handleTransferSingle mintEv emptyStore)) =
     [(''0x00000000000000000000000000000000000000b2-42'',
       \<lparr>utb_user = ''0x00000000000000000000000000000000000000b2'', utb_token = ''42'',
        utb_balance = 5, utb_lastUpdated = 1700000100\<rparr>)]"
  by (simp add: handleTransferSingle_balances mintEv_def xferEv_def toHex_zeroAddr toHex_addrA
      toHex_addrB toStr_42 ZERO_ADDRESS_def balanceUpdate_def Let_def emptyStore_def
      load_def remove_def)

text \<open>
  The run of the mint of 5 units of token 42 to A and of their transfer to B: it returns,
  the record of A is deleted on reaching zero, and the record of B is the only one left.
\<close>

theorem C2_no_zero_balance_witness:
  "applyEvents hostNone [OnTransferSingle mintEv, OnTransferSingle xferEv] emptyStore =
     Inr (handleTransferSingle xferEv (handleTransferSingle mintEv emptyStore)) \<and>
   noZeroBalance (handleTransferSingle xferEv (handleTransferSingle mintEv emptyStore)) \<and>
   map fst (userTokenBalances
              (handleTransferSingle xferEv (handleTransferSingle mintEv emptyStore))) =
     [''0x00000000000000000000000000000000000000b2-42'']"
  using C2_no_zero_balance [of addrA 42 5 0 emptyStore hostNone
      "[OnTransferSingle mintEv, OnTransferSingle xferEv]"
      "handleTransferSingle xferEv (handleTransferSingle mintEv emptyStore)"]
  by (simp add: example_balances)

section \<open>Results for the mapping: the metadata resolver\<close>

lemma unparsable_retrieveJson:
  "unparsable env (Some uri) \<longleftrightarrow> retrieveJson env uri = None"
  by (auto simp: unparsable_def retrievedContent_def retrieveJson_def split: option.splits)

lemma fetch_failure_defaults:
  assumes "unparsable env tokenURI"
  shows "\<exists>md s1. fetchAndParseMetadata env tokenId tokenURI s = Inr (Some md, s1) \<and>
           md_name md = ''Token '' @ tokenId \<and>
           md_description md = ''Description for token '' @ tokenId \<and>
           md_image md = '''' \<and> md_rewardId md = '''' \<and>
           load (tokenMetadatas s1) tokenId = Some md"
proof (cases tokenURI)
  case None
  then show ?thesis
    by (simp add: fetchAndParseMetadata_def Let_def load_save)
next
  case (Some uri)
  with assms have "retrieveJson env uri = None"
    by (simp add: unparsable_retrieveJson)
  with Some show ?thesis
    by (simp add: fetchAndParseMetadata_def Let_def bindE_def load_save)
qed

text \<open>
  The fallback as far as it goes: when the content behind the URI is absent or is not JSON,
  the resolver returns the defaults (lemma \<open>fetch_failure_defaults\<close>).
\<close>

lemma retrieveJson_hostArray:
  "retrieveJson hostArray ''http://example.org/42.json'' = Some (JArray [])"
  by (simp add: retrieveJson_def startsWith_def hostArray_def)

text \<open>
  Claim C8. On \<open>hostArray\<close> the content behind the URI of token 42 is the JSON text
  \<^verbatim>\<open>[]\<close>: it parses, but it is no metadata object. The resolver does not fall back to
  the defaults: \<^verbatim>\<open>toObject\<close> asserts, the resolver aborts, and so does the creation
  handler that called it.
\<close>

theorem C8_json_array_aborts:
  "try_uri hostArray (ev_address createEv) (p_tokenId createEv) =
     Some ''http://example.org/42.json'' \<and>
   http_get hostArray ''http://example.org/42.json'' = Some \<lparr>status = 200, body = [91, 93]\<rparr> \<and>
   json_try_fromBytes hostArray [91, 93] = Some (JArray []) \<and>
   fetchAndParseMetadata hostArray ''42'' (Some ''http://example.org/42.json'') emptyStore =
     Inl JsonKindAssertion \<and>
   handleTokenCreated hostArray createEv emptyStore = Inl JsonKindAssertion"
proof -
  have h: "try_uri hostArray (ev_address createEv) (p_tokenId createEv) =
      Some ''http://example.org/42.json''"
    "http_get hostArray ''http://example.org/42.json'' = Some \<lparr>status = 200, body = [91, 93]\<rparr>"
    "json_try_fromBytes hostArray [91, 93] = Some (JArray [])"
    by (simp_all add: hostArray_def)
  have f: "fetchAndParseMetadata hostArray ''42'' (Some ''http://example.org/42.json'') s =
      Inl JsonKindAssertion" for s
    by (simp add: fetchAndParseMetadata_def Let_def bindE_def retrieveJson_hostArray
        applyMetadataJson_def toObject_def)
  have t: "toStr (p_tokenId createEv) = ''42''"
    by (simp add: createEv_def toStr_42)
  have "load (tokens emptyStore) ''42'' = None"
    by (simp add: emptyStore_def)
  then have "handleTokenCreated hostArray createEv emptyStore = Inl JsonKindAssertion"
    by (simp add: handleTokenCreated_def createToken_def Let_def bindE_def t h(1) f)
  with h f show ?thesis by simp
qed

section \<open>Results for the mapping: token creation\<close>

lemma length_save:
  "length (save k v t) = (if k \<in> set (map fst t) then length t else Suc (length t))"
  by (induction t) auto

lemma globalCount_updateGlobalStats:
  "globalCount gs_totalTokens (updateGlobalStats ts a b c s) =
     globalCount gs_totalTokens s + (if a then 1 else 0)"
  "globalCount gs_totalMints (updateGlobalStats ts a b c s) =
     globalCount gs_totalMints s + (if b then 1 else 0)"
  "globalCount gs_totalUsers (updateGlobalStats ts a b c s) =
     globalCount gs_totalUsers s + (if c then 1 else 0)"
  "globalCount gs_totalEvents (updateGlobalStats ts a b c s) = globalCount gs_totalEvents s + 1"
  by (simp_all add: globalCount_def updateGlobalStats_def Let_def load_save split: option.splits)

lemma globalCount_cong:
  "globalStats s = globalStats s' \<Longrightarrow> globalCount f s = globalCount f s'"
  by (simp add: globalCount_def)

lemma getOrCreateUser_globalStats:
  "globalStats (snd (getOrCreateUser a s)) =
     (if load (users s) (toHex a) = None
      then globalStats (updateGlobalStats 0 False False True s) else globalStats s)"
  by (simp add: getOrCreateUser_def Let_def split_def split: option.splits)

lemma getOrCreateUser_tokens_count:
  "globalCount gs_totalTokens (snd (getOrCreateUser a s)) = globalCount gs_totalTokens s"
proof (cases "load (users s) (toHex a)")
  case None
  then have "globalCount gs_totalTokens (snd (getOrCreateUser a s)) =
      globalCount gs_totalTokens (updateGlobalStats 0 False False True s)"
    by (intro globalCount_cong) (simp add: getOrCreateUser_globalStats)
  then show ?thesis by (simp add: globalCount_updateGlobalStats)
next
  case (Some u)
  then show ?thesis
    by (intro globalCount_cong) (simp add: getOrCreateUser_globalStats)
qed

lemma getOrCreateUser_users:
  "load (users (snd (getOrCreateUser a s))) k =
     (if k = toHex a then Some (fst (getOrCreateUser a s)) else load (users s) k)"
  by (simp add: getOrCreateUser_def Let_def split_def load_save split: option.splits)

lemma getOrCreateUser_created:
  "u_totalTokensCreated (fst (getOrCreateUser a s)) = userCount u_totalTokensCreated s (toHex a)"
  by (simp add: getOrCreateUser_def Let_def split_def userCount_def split: option.splits)

lemma recordCreation_creations:
  "tokenCreations (recordCreation ev s) =
     save (eventId ev)
       \<lparr>tc_token = toStr (p_tokenId ev), tc_tokenId = p_tokenId ev,
        tc_tokenType = p_tokenType ev, tc_category = p_category ev,
        tc_subCategory = p_subCategory ev, tc_creator = toHex (tx_from ev),
        tc_timestamp = block_timestamp ev, tc_blockNumber = block_number ev,
        tc_transactionHash = tx_hash ev\<rparr> (tokenCreations s)"
  by (simp add: recordCreation_def Let_def split_def)

lemma recordCreation_allEvents:
  "set (map fst (allEvents (recordCreation ev s))) =
     insert (eventId ev) (set (map fst (allEvents s)))"
  "length (allEvents (recordCreation ev s)) =
     (if eventId ev \<in> set (map fst (allEvents s)) then length (allEvents s)
      else Suc (length (allEvents s)))"
  "map_option ae_eventType (load (allEvents (recordCreation ev s)) (eventId ev)) =
     Some ''TokenCreated''"
  by (simp_all add: recordCreation_def Let_def split_def baseAllEvent_def keys_save
      length_save load_save del: set_map)

lemma recordCreation_user:
  "userCount u_totalTokensCreated (recordCreation ev s) (toHex (tx_from ev)) =
     userCount u_totalTokensCreated s (toHex (tx_from ev)) + 1"
  by (simp add: recordCreation_def Let_def split_def userCount_def load_save
      getOrCreateUser_users getOrCreateUser_created)


lemma recordCreation_global:
  "globalCount gs_totalTokens (recordCreation ev s) = globalCount gs_totalTokens s + 1"
proof -
  have "globalCount gs_totalTokens (recordCreation ev s) =
      globalCount gs_totalTokens
        (updateGlobalStats (block_timestamp ev) True False False
           (snd (getOrCreateUser (tx_from ev) (snd (getOrCreateUser (tx_from ev) s)))))"
    by (intro globalCount_cong)
      (simp add: recordCreation_def Let_def split_def getOrCreateUser_globalStats
        getOrCreateUser_users updateGlobalStats_def)
  then show ?thesis
    by (simp add: globalCount_updateGlobalStats getOrCreateUser_tokens_count)
qed

lemma recordCreation_daily:
  "dailyCount ds_tokensCreated (recordCreation ev s) (toStr (bigIntDiv (block_timestamp ev) 86400)) =
     dailyCount ds_tokensCreated s (toStr (bigIntDiv (block_timestamp ev) 86400)) + 1"
  by (simp add: recordCreation_def Let_def split_def dailyCount_def updateDailyStats_def
      load_save split: option.splits)

lemma handleTokenCreated_existing:
  "load (tokens s) (toStr (p_tokenId ev)) = Some tk \<Longrightarrow>
   handleTokenCreated env ev s = Inr (recordCreation ev s)"
  by (simp add: handleTokenCreated_def bindE_def)

text \<open>
  Claim C3. When a Token exists for the id of a \<^verbatim>\<open>TokenCreated\<close> event, the handler
  returns, and the Token collection is as before: the entity under the id is the same record,
  so supply, creator and descriptive fields are untouched; the stored metadata, properties
  and attributes are untouched as well.
\<close>

theorem C3_duplicate_creation_keeps_token:
  "load (tokens s) (toStr (p_tokenId event)) = Some token \<Longrightarrow>
   \<exists>s1. handleTokenCreated env event s = Inr s1 \<and>
     load (tokens s1) (toStr (p_tokenId event)) = Some token \<and>
     tokens s1 = tokens s \<and> tokenMetadatas s1 = tokenMetadatas s \<and>
     tokenProperties s1 = tokenProperties s \<and> tokenAttributes s1 = tokenAttributes s"
  by (simp add: handleTokenCreated_existing)

lemma store42_has_token: "load (tokens store42) (toStr (p_tokenId createEv)) = Some token42"
  by (simp add: store42_def createEv_def toStr_42 load_def)

text \<open>
  The creation event of token 42 applied to a store that holds token 42.
\<close>

theorem C3_duplicate_creation_keeps_token_witness:
  "load (tokens store42) (toStr (p_tokenId createEv)) = Some token42 \<and>
   (\<exists>s1. handleTokenCreated hostNone createEv store42 = Inr s1 \<and>
      load (tokens s1) (toStr (p_tokenId createEv)) = Some token42 \<and>
      tokens s1 = tokens store42 \<and> tokenMetadatas s1 = tokenMetadatas store42 \<and>
      tokenProperties s1 = tokenProperties store42 \<and>
      tokenAttributes s1 = tokenAttributes store42)"
  using C3_duplicate_creation_keeps_token [OF store42_has_token, of hostNone] store42_has_token
  by simp

lemma createToken_returns:
  assumes "unparsable env (try_uri env (ev_address ev) (p_tokenId ev))"
  shows "\<exists>s0. createToken env ev s = Inr s0"
proof -
  from fetch_failure_defaults [OF assms, of "toStr (p_tokenId ev)" s]
  obtain md s' where "fetchAndParseMetadata env (toStr (p_tokenId ev))
      (try_uri env (ev_address ev) (p_tokenId ev)) s = Inr (Some md, s')"
    by blast
  then show ?thesis
    by (simp add: createToken_def Let_def bindE_def)
qed

lemma unparsable_hostNone: "unparsable hostNone (try_uri hostNone a t)"
  by (simp add: unparsable_def hostNone_def)

lemma recordCreation_other:
  "k \<noteq> eventId ev \<Longrightarrow>
   load (tokenCreations (recordCreation ev s)) k = load (tokenCreations s) k"
  "k \<noteq> eventId ev \<Longrightarrow> load (allEvents (recordCreation ev s)) k = load (allEvents s) k"
  by (simp_all add: recordCreation_def Let_def split_def load_save)

lemma afterCreate_facts:
  "\<not> isl (handleTokenCreated hostNone createEv emptyStore)"
  "load (tokens afterCreate) (toStr (p_tokenId createEv)) \<noteq> None"
  "map fst (tokenCreations afterCreate) = [eventId createEv]"
  "length (allEvents afterCreate) = 1"
  "eventId createEv \<in> set (map fst (allEvents afterCreate))"
  "globalCount gs_totalTokens afterCreate = 1"
  "length (tokenCreations afterCreate) = 1"
proof -
  from createToken_returns [OF unparsable_hostNone, of createEv emptyStore]
  obtain s0 where c: "createToken hostNone createEv emptyStore = Inr s0" by blast
  from createToken_tokens [OF c] obtain tk where
    tk: "tokens s0 = save (toStr (p_tokenId createEv)) tk (tokens emptyStore)" by blast
  have e: "tokenCreations s0 = []" "allEvents s0 = []" "globalStats s0 = []"
    using createToken_frame(1,9,7) [OF c] by (simp_all add: emptyStore_def)
  have "load (tokens emptyStore) (toStr (p_tokenId createEv)) = None"
    by (simp add: emptyStore_def)
  then have r: "handleTokenCreated hostNone createEv emptyStore = Inr (recordCreation createEv s0)"
    using c by (simp add: handleTokenCreated_def bindE_def)
  then have a: "afterCreate = recordCreation createEv s0"
    by (simp add: afterCreate_def)
  show "\<not> isl (handleTokenCreated hostNone createEv emptyStore)"
    by (simp add: r)
  show "load (tokens afterCreate) (toStr (p_tokenId createEv)) \<noteq> None"
    by (simp add: a tk load_save)
  show "map fst (tokenCreations afterCreate) = [eventId createEv]"
    by (simp add: a recordCreation_creations e)
  show "length (allEvents afterCreate) = 1"
    by (simp add: a recordCreation_allEvents(2) e)
  show "eventId createEv \<in> set (map fst (allEvents afterCreate))"
    unfolding a recordCreation_allEvents(1) by simp
  have "globalCount gs_totalTokens s0 = 0"
    by (simp add: globalCount_def e)
  then show "globalCount gs_totalTokens afterCreate = 1"
    by (simp add: a recordCreation_global)
  show "length (tokenCreations afterCreate) = 1"
    by (simp add: a recordCreation_creations length_save e)
qed

lemma afterRedelivery_facts:
  "handleTokenCreated hostNone createEv afterCreate = Inr afterRedelivery"
  "length (tokenCreations afterRedelivery) = 1"
  "length (allEvents afterRedelivery) = 1"
  "globalCount gs_totalTokens afterRedelivery = 2"
proof -
  from afterCreate_facts(2) obtain tk where
    "load (tokens afterCreate) (toStr (p_tokenId createEv)) = Some tk" by auto
  then have r: "handleTokenCreated hostNone createEv afterCreate =
      Inr (recordCreation createEv afterCreate)"
    by (rule handleTokenCreated_existing)
  then have a: "afterRedelivery = recordCreation createEv afterCreate"
    by (simp add: afterRedelivery_def)
  show "handleTokenCreated hostNone createEv afterCreate = Inr afterRedelivery"
    by (simp add: r a)
  show "length (tokenCreations afterRedelivery) = 1"
    using afterCreate_facts(3,7)
    by (simp add: a recordCreation_creations length_save del: set_map)
  show "length (allEvents afterRedelivery) = 1"
    using afterCreate_facts(4,5)
    by (simp add: a recordCreation_allEvents(2) del: set_map)
  show "globalCount gs_totalTokens afterRedelivery = 2"
    by (simp add: a recordCreation_global afterCreate_facts(6))
qed

text \<open>
  Claim C10, as amended. A \<^verbatim>\<open>TokenCreated\<close> event for an id whose Token exists
  leaves the Token collection as it is and still saves a \<^verbatim>\<open>TokenCreation\<close> record
  and a journal entry under the id of the event, tx-hash and log index: one more record
  each when that id is not stored yet, the replacement of the stored record when it is (the
  same event delivered again), the records under other ids untouched. In both cases it
  adds one to the creator's \<^verbatim>\<open>totalTokensCreated\<close>, to the \<^verbatim>\<open>totalTokens\<close> of
  \<^verbatim>\<open>GlobalStats\<close> and to the \<^verbatim>\<open>tokensCreated\<close> of the day of the event.
\<close>

theorem C10_duplicate_creation_upserts_and_counts:
  "load (tokens s) (toStr (p_tokenId event)) = Some token \<Longrightarrow>
   \<exists>s1. handleTokenCreated env event s = Inr s1 \<and>
     tokens s1 = tokens s \<and>
     load (tokenCreations s1) (toHex (tx_hash event) @ ''-'' @ toStr (ev_logIndex event)) =
       Some \<lparr>tc_token = toStr (p_tokenId event), tc_tokenId = p_tokenId event,
             tc_tokenType = p_tokenType event, tc_category = p_category event,
             tc_subCategory = p_subCategory event, tc_creator = toHex (tx_from event),
             tc_timestamp = block_timestamp event, tc_blockNumber = block_number event,
             tc_transactionHash = tx_hash event\<rparr> \<and>
     length (tokenCreations s1) =
       (if toHex (tx_hash event) @ ''-'' @ toStr (ev_logIndex event)
             \<in> set (map fst (tokenCreations s))
        then length (tokenCreations s) else Suc (length (tokenCreations s))) \<and>
     map_option ae_eventType
       (load (allEvents s1) (toHex (tx_hash event) @ ''-'' @ toStr (ev_logIndex event))) =
       Some ''TokenCreated'' \<and>
     length (allEvents s1) =
       (if toHex (tx_hash event) @ ''-'' @ toStr (ev_logIndex event)
             \<in> set (map fst (allEvents s))
        then length (allEvents s) else Suc (length (allEvents s))) \<and>
     (\<forall>k. k \<noteq> toHex (tx_hash event) @ ''-'' @ toStr (ev_logIndex event) \<longrightarrow>
        load (tokenCreations s1) k = load (tokenCreations s) k \<and>
        load (allEvents s1) k = load (allEvents s) k) \<and>
     userCount u_totalTokensCreated s1 (toHex (tx_from event)) =
       userCount u_totalTokensCreated s (toHex (tx_from event)) + 1 \<and>
     globalCount gs_totalTokens s1 = globalCount gs_totalTokens s + 1 \<and>
     dailyCount ds_tokensCreated s1 (toStr (bigIntDiv (block_timestamp event) 86400)) =
       dailyCount ds_tokensCreated s (toStr (bigIntDiv (block_timestamp event) 86400)) + 1"
proof -
  assume "load (tokens s) (toStr (p_tokenId event)) = Some token"
  then have h: "handleTokenCreated env event s = Inr (recordCreation event s)"
    by (rule handleTokenCreated_existing)
  show ?thesis
    unfolding h eventId_def [symmetric]
    using recordCreation_allEvents(3) [of event s]
    by (simp add: recordCreation_creations load_save length_save recordCreation_allEvents(1,2)
        recordCreation_other recordCreation_user recordCreation_global recordCreation_daily
        del: set_map)
qed

text \<open>
  The claim as stated fails when the creation event of token 42 is delivered a second time:
  the Token exists, and the second delivery adds no creation record and no journal entry
  (one of each before, one of each after) while the token counter goes from 1 to 2.
\<close>

theorem C10_redelivery_adds_no_record:
  "\<not> isl (handleTokenCreated hostNone createEv emptyStore) \<and>
   load (tokens afterCreate) (toStr (p_tokenId createEv)) \<noteq> None \<and>
   handleTokenCreated hostNone createEv afterCreate = Inr afterRedelivery \<and>
   length (tokenCreations afterCreate) = 1 \<and> length (tokenCreations afterRedelivery) = 1 \<and>
   length (allEvents afterCreate) = 1 \<and> length (allEvents afterRedelivery) = 1 \<and>
   globalCount gs_totalTokens afterCreate = 1 \<and>
   globalCount gs_totalTokens afterRedelivery = 2"
  using afterCreate_facts afterRedelivery_facts by simp

text \<open>
  The second delivery of the creation event on \<open>afterCreate\<close>, which holds the Token
  and the records of the first delivery, and the same event on \<open>store42\<close>, which holds
  the Token and no record: the first replaces the two records, the second adds them.
\<close>

theorem C10_duplicate_creation_upserts_and_counts_witness:
  "load (tokens afterCreate) (toStr (p_tokenId createEv)) \<noteq> None \<and>
   (\<exists>s1. handleTokenCreated hostNone createEv afterCreate = Inr s1 \<and>
      tokens s1 = tokens afterCreate \<and>
      length (tokenCreations s1) = 1 \<and> length (allEvents s1) = 1 \<and>
      map_option ae_eventType (load (allEvents s1) (eventId createEv)) = Some ''TokenCreated'' \<and>
      globalCount gs_totalTokens s1 = 2) \<and>
   load (tokens store42) (toStr (p_tokenId createEv)) = Some token42 \<and>
   (\<exists>s1. handleTokenCreated hostNone createEv store42 = Inr s1 \<and>
      tokens s1 = tokens store42 \<and>
      length (tokenCreations s1) = 1 \<and> length (allEvents s1) = 1 \<and>
      globalCount gs_totalTokens s1 = 1)"
proof -
  from afterCreate_facts(2) obtain tk where
    tk: "load (tokens afterCreate) (toStr (p_tokenId createEv)) = Some tk" by auto
  have l: "length (tokenCreations afterCreate) = 1"
    "eventId createEv \<in> set (map fst (tokenCreations afterCreate))"
    using afterCreate_facts(3,7) by simp_all
  have e: "tokenCreations store42 = []" "allEvents store42 = []" "globalStats store42 = []"
    by (simp_all add: store42_def emptyStore_def)
  from C10_duplicate_creation_upserts_and_counts [OF tk, of hostNone]
  have 1: "\<exists>s1. handleTokenCreated hostNone createEv afterCreate = Inr s1 \<and>
      tokens s1 = tokens afterCreate \<and>
      length (tokenCreations s1) = 1 \<and> length (allEvents s1) = 1 \<and>
      map_option ae_eventType (load (allEvents s1) (eventId createEv)) = Some ''TokenCreated'' \<and>
      globalCount gs_totalTokens s1 = 2"
    using l afterCreate_facts(4,5,6)
    unfolding eventId_def [symmetric]
    by (auto simp del: set_map)
  from C10_duplicate_creation_upserts_and_counts [OF store42_has_token, of hostNone]
  have 2: "\<exists>s1. handleTokenCreated hostNone createEv store42 = Inr s1 \<and>
      tokens s1 = tokens store42 \<and>
      length (tokenCreations s1) = 1 \<and> length (allEvents s1) = 1 \<and>
      globalCount gs_totalTokens s1 = 1"
    by (auto simp: e globalCount_def)
  from 1 2 afterCreate_facts(2) store42_has_token show ?thesis by blast
qed

section \<open>Results for the mapping: the journal\<close>

lemma map_fst_save:
  "map fst (save k v t) = (if k \<in> set (map fst t) then map fst t else map fst t @ [k])"
  by (induction t) auto

lemma handleTokenMint_allEvents:
  "allEvents (handleTokenMint to t m op ev s) =
     save (eventId ev)
       ((baseAllEvent ''TokenMint'' (''Mint of token ID: '' @ toStr t) ev)
          \<lparr>ae_toAddress := Some to, ae_amount := Some m, ae_operator := Some op,
           ae_tokenId := Some t\<rparr>) (allEvents s)"
  by (simp add: handleTokenMint_def Let_def split_def split: option.splits)

lemma handleTokenMint_tokenMints:
  "map fst (tokenMints (handleTokenMint to t m op ev s)) =
     (if mintId ev (toStr t) \<in> set (map fst (tokenMints s)) then map fst (tokenMints s)
      else map fst (tokenMints s) @ [mintId ev (toStr t)])"
  by (simp add: handleTokenMint_def Let_def split_def map_fst_save del: set_map
      split: option.splits)

lemma handleTransferSingle_keys:
  "set (map fst (allEvents (handleTransferSingle ev s))) =
     insert (eventId ev) (set (map fst (allEvents s)))"
  by (simp add: handleTransferSingle_def Let_def handleTokenMint_allEvents keys_save
      del: set_map)

lemma roleChanged_keys:
  "set (map fst (allEvents (roleChanged g et vb r a sd ev s))) =
     insert (eventId ev) (set (map fst (allEvents s)))"
  by (simp add: roleChanged_def Let_def split_def keys_save del: set_map)

lemma handleTokenCreated_keys:
  assumes "handleTokenCreated env ev s = Inr s1"
  shows "set (map fst (allEvents s1)) = insert (eventId ev) (set (map fst (allEvents s)))"
proof (cases "load (tokens s) (toStr (p_tokenId ev))")
  case None
  with assms obtain s0 where c: "createToken env ev s = Inr s0" and s1: "s1 = recordCreation ev s0"
    by (auto simp: handleTokenCreated_def bindE_def split: sum.splits)
  from createToken_frame(9) [OF c] show ?thesis
    unfolding s1 by (simp add: recordCreation_allEvents(1) del: set_map)
next
  case (Some tk)
  with assms have "s1 = recordCreation ev s"
    by (simp add: handleTokenCreated_def bindE_def)
  then show ?thesis by (simp add: recordCreation_allEvents(1) del: set_map)
qed

lemma transferBatchLoop_keys:
  "transferBatchLoop ev ids vals s = Inr s1 \<Longrightarrow>
   set (map fst (allEvents s)) \<subseteq> set (map fst (allEvents s1)) \<and>
   set (map fst (allEvents s1)) \<subseteq> insert (eventId ev) (set (map fst (allEvents s)))"
proof (induction ev ids vals s rule: transferBatchLoop.induct)
  case (1 event vals s)
  then show ?case by auto
next
  case (2 event tokenId ids s)
  then show ?case by simp
next
  case (3 event tokenId ids amount vals s)
  let ?s = "if toHex (tb_from event) = ZERO_ADDRESS
            then handleTokenMint (tb_to event) tokenId amount (tb_operator event) event s
            else updateUserBalance (tb_to event) tokenId amount (block_timestamp event)
                   (updateUserBalance (tb_from event) tokenId (- amount)
                      (block_timestamp event) s)"
  have k: "set (map fst (allEvents s)) \<subseteq> set (map fst (allEvents ?s))"
    "set (map fst (allEvents ?s)) \<subseteq> insert (eventId event) (set (map fst (allEvents s)))"
    by (auto simp: handleTokenMint_allEvents keys_save simp del: set_map)
  from "3.prems" have "transferBatchLoop event ids vals ?s = Inr s1" by simp
  from "3.IH" [OF this] k show ?case by blast
qed

lemma handleTransferBatch_keys:
  assumes "handleTransferBatch ev s = Inr s1"
  shows "set (map fst (allEvents s1)) = insert (eventId ev) (set (map fst (allEvents s)))"
    and "map_option ae_eventType (load (allEvents s1) (eventId ev)) = Some ''TransferBatch''"
proof -
  from assms obtain s0 where l: "transferBatchLoop ev (tb_ids ev) (tb_values ev) s = Inr s0"
    and s1: "allEvents s1 =
       save (eventId ev)
         ((baseAllEvent ''TransferBatch'' ''Batch transfer of tokens'' ev)
            \<lparr>ae_fromAddress := Some (tb_from ev), ae_toAddress := Some (tb_to ev),
             ae_amounts := Some (tb_values ev), ae_tokenIds := Some (tb_ids ev),
             ae_operator := Some (tb_operator ev)\<rparr>) (allEvents s0)"
    by (auto simp: handleTransferBatch_def bindE_def Let_def split: sum.splits)
  from transferBatchLoop_keys [OF l]
  show "set (map fst (allEvents s1)) = insert (eventId ev) (set (map fst (allEvents s)))"
    unfolding s1 keys_save by blast
  show "map_option ae_eventType (load (allEvents s1) (eventId ev)) = Some ''TransferBatch''"
    unfolding s1 by (simp add: load_save baseAllEvent_def)
qed

text \<open>
  Claim C9, as amended. Every handler saves its journal entry under tx-hash and log
  index alone, the mint sub-transition included: an applied event adds exactly that one id
  to the ids of the journal. After a batch event the entry under the id is the entry of the
  whole batch. The id that carries the token id is the id of the \<^verbatim>\<open>TokenMint\<close> record.
\<close>

theorem C9_journal_ids:
  "applyEvent env ev s = Inr s1 \<Longrightarrow>
   set (journalIds s1) = insert (journalId ev) (set (journalIds s)) \<and>
   (\<forall>e. ev = OnTransferBatch e \<longrightarrow>
      map_option ae_eventType (load (allEvents s1) (journalId ev)) = Some ''TransferBatch'') \<and>
   set (journalIds (handleTokenMint to tokenId amount operator e0 s0)) =
     insert (eventId e0) (set (journalIds s0)) \<and>
   set (mintIds (handleTokenMint to tokenId amount operator e0 s0)) =
     insert (mintId e0 (toStr tokenId)) (set (mintIds s0))"
proof -
  assume a: "applyEvent env ev s = Inr s1"
  have 1: "set (journalIds s1) = insert (journalId ev) (set (journalIds s))"
  proof (cases ev)
    case (OnTokenCreated e)
    with a show ?thesis by (simp add: journalIds_def handleTokenCreated_keys del: set_map)
  next
    case (OnTransferSingle e)
    with a show ?thesis by (auto simp: journalIds_def handleTransferSingle_keys simp del: set_map)
  next
    case (OnTransferBatch e)
    with a show ?thesis by (simp add: journalIds_def handleTransferBatch_keys(1) del: set_map)
  next
    case (OnRoleGranted e)
    with a show ?thesis
      by (auto simp: journalIds_def handleRoleGranted_def roleChanged_keys simp del: set_map)
  next
    case (OnRoleRevoked e)
    with a show ?thesis
      by (auto simp: journalIds_def handleRoleRevoked_def roleChanged_keys simp del: set_map)
  qed
  have 2: "\<forall>e. ev = OnTransferBatch e \<longrightarrow>
      map_option ae_eventType (load (allEvents s1) (journalId ev)) = Some ''TransferBatch''"
    using a handleTransferBatch_keys(2) by auto
  have 3: "set (journalIds (handleTokenMint to tokenId amount operator e0 s0)) =
     insert (eventId e0) (set (journalIds s0))"
    by (simp add: journalIds_def handleTokenMint_allEvents keys_save del: set_map)
  have 4: "set (mintIds (handleTokenMint to tokenId amount operator e0 s0)) =
     insert (mintId e0 (toStr tokenId)) (set (mintIds s0))"
    by (auto simp: mintIds_def handleTokenMint_tokenMints simp del: set_map)
  from 1 2 3 4 show ?thesis by blast
qed

lemma batchMint_loop:
  "transferBatchLoop batchMintEv (tb_ids batchMintEv) (tb_values batchMintEv) emptyStore =
     Inr (handleTokenMint addrA 2 7 addrA batchMintEv
            (handleTokenMint addrA 1 5 addrA batchMintEv emptyStore))"
proof -
  have z: "toHex (tb_from batchMintEv) = ZERO_ADDRESS"
    by (simp add: batchMintEv_def toHex_zeroAddr)
  have f: "tb_ids batchMintEv = [1, 2]" "tb_values batchMintEv = [5, 7]"
    "tb_to batchMintEv = addrA" "tb_operator batchMintEv = addrA"
    by (simp_all add: batchMintEv_def)
  show ?thesis
    unfolding f by (simp add: z f)
qed

lemma toStr_1_2: "toStr 1 = ''1''" "toStr 2 = ''2''"
  by (simp_all add: toStr_def natToString.simps digitChars_def)

lemma batchMint_result:
  "\<not> isl (handleTransferBatch batchMintEv emptyStore)"
  "journalIds (projr (transferBatchLoop batchMintEv (tb_ids batchMintEv)
                        (tb_values batchMintEv) emptyStore)) = [eventId batchMintEv]"
  "journalTypes (projr (transferBatchLoop batchMintEv (tb_ids batchMintEv)
                          (tb_values batchMintEv) emptyStore)) = [''TokenMint'']"
  "journalIds (projr (handleTransferBatch batchMintEv emptyStore)) = [eventId batchMintEv]"
  "journalTypes (projr (handleTransferBatch batchMintEv emptyStore)) = [''TransferBatch'']"
  "mintIds (projr (handleTransferBatch batchMintEv emptyStore)) =
     [mintId batchMintEv ''1'', mintId batchMintEv ''2'']"
proof -
  have e: "allEvents emptyStore = []" "tokenMints emptyStore = []"
    by (simp_all add: emptyStore_def)
  show "\<not> isl (handleTransferBatch batchMintEv emptyStore)"
    by (simp add: handleTransferBatch_def batchMint_loop bindE_def Let_def)
  show "journalIds (projr (transferBatchLoop batchMintEv (tb_ids batchMintEv)
                        (tb_values batchMintEv) emptyStore)) = [eventId batchMintEv]"
    by (simp add: batchMint_loop journalIds_def handleTokenMint_allEvents e)
  show "journalTypes (projr (transferBatchLoop batchMintEv (tb_ids batchMintEv)
                          (tb_values batchMintEv) emptyStore)) = [''TokenMint'']"
    by (simp add: batchMint_loop journalTypes_def handleTokenMint_allEvents e baseAllEvent_def)
  show "journalIds (projr (handleTransferBatch batchMintEv emptyStore)) = [eventId batchMintEv]"
    by (simp add: handleTransferBatch_def batchMint_loop bindE_def Let_def journalIds_def
        handleTokenMint_allEvents e)
  show "journalTypes (projr (handleTransferBatch batchMintEv emptyStore)) = [''TransferBatch'']"
    by (simp add: handleTransferBatch_def batchMint_loop bindE_def Let_def journalTypes_def
        handleTokenMint_allEvents e baseAllEvent_def)
  show "mintIds (projr (handleTransferBatch batchMintEv emptyStore)) =
     [mintId batchMintEv ''1'', mintId batchMintEv ''2'']"
    by (simp add: handleTransferBatch_def batchMint_loop bindE_def Let_def mintIds_def
        handleTokenMint_tokenMints e toStr_1_2 mintId_def)
qed

text \<open>
  The claim as stated fails on the batch mint of tokens 1 and 2. After the loop the journal
  holds one entry, the mint entry of token 2 saved over the mint entry of token 1 under the
  same id; after the handler it holds the entry of the whole batch under that id. The two
  mint records have two ids.
\<close>

theorem C9_batch_mint_one_journal_id:
  "\<not> isl (handleTransferBatch batchMintEv emptyStore) \<and>
   journalIds (projr (transferBatchLoop batchMintEv (tb_ids batchMintEv)
                        (tb_values batchMintEv) emptyStore)) = [eventId batchMintEv] \<and>
   journalTypes (projr (transferBatchLoop batchMintEv (tb_ids batchMintEv)
                          (tb_values batchMintEv) emptyStore)) = [''TokenMint''] \<and>
   journalIds (projr (handleTransferBatch batchMintEv emptyStore)) = [eventId batchMintEv] \<and>
   journalTypes (projr (handleTransferBatch batchMintEv emptyStore)) = [''TransferBatch''] \<and>
   mintIds (projr (handleTransferBatch batchMintEv emptyStore)) =
     [mintId batchMintEv ''1'', mintId batchMintEv ''2'']"
  using batchMint_result by blast

text \<open>
  The batch mint applied to the empty store adds the one id of the event to the journal.
\<close>

theorem C9_journal_ids_witness:
  "applyEvent hostNone (OnTransferBatch batchMintEv) emptyStore =
     Inr (projr (handleTransferBatch batchMintEv emptyStore)) \<and>
   set (journalIds (projr (handleTransferBatch batchMintEv emptyStore))) =
     {eventId batchMintEv} \<and>
   map_option ae_eventType
     (load (allEvents (projr (handleTransferBatch batchMintEv emptyStore)))
        (eventId batchMintEv)) = Some ''TransferBatch''"
proof -
  have r: "applyEvent hostNone (OnTransferBatch batchMintEv) emptyStore =
     Inr (projr (handleTransferBatch batchMintEv emptyStore))"
    using batchMint_result(1) by simp
  have e: "journalIds emptyStore = []"
    by (simp add: journalIds_def emptyStore_def)
  from C9_journal_ids [OF r, of addrA 1 5 addrA batchMintEv emptyStore] r e
  show ?thesis by simp
qed

section \<open>Results for the mapping: transfers of tokens without a Token entity\<close>

lemma handleTokenMint_tokens:
  "tokens (handleTokenMint to t m op ev s) =
     (case load (tokens s) (toStr t) of
        Some tk \<Rightarrow> save (toStr t) (tk\<lparr>tok_currentSupply := tok_currentSupply tk + m\<rparr>) (tokens s)
      | None \<Rightarrow> tokens s)"
  by (simp add: handleTokenMint_def Let_def split_def split: option.splits)

lemma handleTransferSingle_tokens_unknown:
  "load (tokens s) (toStr (ts_id ev)) = None \<Longrightarrow> tokens (handleTransferSingle ev s) = tokens s"
  by (simp add: handleTransferSingle_def Let_def handleTokenMint_tokens)







section \<open>Results for the mapping: the global counters\<close>

lemma updateGlobalStats_stats:
  "globalStats (updateGlobalStats ts a b c s) = statsStep ts a b c (globalStats s)"
  by (simp add: statsStep_def updateGlobalStats_def Let_def)

lemma getOrCreateUser_stats:
  "globalStats (snd (getOrCreateUser a s)) =
     (if load (users s) (toHex a) = None then statsStep 0 False False True (globalStats s)
      else globalStats s)"
  by (auto simp: getOrCreateUser_globalStats updateGlobalStats_stats)

lemma getOrCreateUser_known:
  "load (users (snd (getOrCreateUser a s))) k = None \<longleftrightarrow> k \<noteq> toHex a \<and> load (users s) k = None"
  by (simp add: getOrCreateUser_users)

lemma updateUserBalance_known:
  "load (users (updateUserBalance a t m ts s)) k = None \<longleftrightarrow>
     k \<noteq> toHex a \<and> load (users s) k = None"
  by (simp add: updateUserBalance_def Let_def split_def load_save getOrCreateUser_known)

lemma updateUserBalance_stats:
  "globalStats (updateUserBalance a t m ts s) =
     (if load (users s) (toHex a) = None then statsStep 0 False False True (globalStats s)
      else globalStats s)"
  by (auto simp: updateUserBalance_def Let_def split_def getOrCreateUser_stats)

lemma handleTokenMint_stats:
  "globalStats (handleTokenMint to t m op ev s) =
     statsStep (block_timestamp ev) False True False
       (if load (users s) (toHex to) = None then statsStep 0 False False True (globalStats s)
        else globalStats s)"
  by (auto simp: handleTokenMint_def Let_def split_def getOrCreateUser_stats
      updateUserBalance_stats updateGlobalStats_stats getOrCreateUser_known
      updateUserBalance_known load_save split: option.splits)





text \<open>
  Every handler changes \<^verbatim>\<open>GlobalStats\<close> through calls of \<^verbatim>\<open>updateGlobalStats\<close>
  with exactly one flag set, and in no other way: a property of the collection that these
  three calls keep is kept by every applied event.
\<close>

lemma handleTokenMint_stats_pres:
  assumes "\<And>ts tbl. P tbl \<Longrightarrow> P (statsStep ts False True False tbl)"
    and "\<And>ts tbl. P tbl \<Longrightarrow> P (statsStep ts False False True tbl)"
    and "P (globalStats s)"
  shows "P (globalStats (handleTokenMint to t m op ev s))"
  using assms by (simp add: handleTokenMint_stats)

lemma updateUserBalance_stats_pres:
  assumes "\<And>ts tbl. P tbl \<Longrightarrow> P (statsStep ts False False True tbl)"
    and "P (globalStats s)"
  shows "P (globalStats (updateUserBalance a t m ts s))"
  using assms by (simp add: updateUserBalance_stats)









lemma addCalls_zero [simp]: "addCalls 0 0 0 x = x"
  by (cases x) simp





lemma newUsersOf_Nil [simp]: "newUsersOf s [] = 0"
  by (simp add: newUsersOf_def)








section \<open>Results for the mapping: balance conservation\<close>

lemma digitChars_nth: "n < 16 \<Longrightarrow> digitChars ! n \<in> set digitChars"
proof -
  have "length digitChars = 16" by (simp add: digitChars_def)
  then show "n < 16 \<Longrightarrow> digitChars ! n \<in> set digitChars"
    using nth_mem [of n digitChars] by simp
qed

lemma dash_notin_hexByte: "CHR ''-'' \<notin> set (hexByte b)"
proof -
  have "unat b < 256"
    using unsigned_less [of b] by simp
  then have "unat b div 16 < 16" "unat b mod 16 < 16" by auto
  then have "set (hexByte b) \<subseteq> set digitChars"
    using digitChars_nth by (simp add: hexByte_def)
  moreover have "CHR ''-'' \<notin> set digitChars"
    by (simp add: digitChars_def)
  ultimately show ?thesis by blast
qed

lemma dash_notin_toHex: "CHR ''-'' \<notin> set (toHex a)"
  using dash_notin_hexByte by (auto simp: toHex_def)

lemma keyToken_balanceId: "CHR ''-'' \<notin> set u \<Longrightarrow> keyToken (u @ CHR ''-'' # t) = t"
  by (induction u) (auto simp: keyToken_def)

lemma load_None_keys: "load t k = None \<longleftrightarrow> k \<notin> set (map fst t)"
  by (simp add: load_def map_of_eq_None_iff)

lemma load_Some_mem: "load t k = Some v \<Longrightarrow> (k, v) \<in> set t"
  by (simp add: load_def map_of_SomeD)

lemma remove_absent: "k \<notin> set (map fst t) \<Longrightarrow> remove k t = t"
  by (induction t) (auto simp: remove_def)

lemma distinct_save: "distinct (map fst t) \<Longrightarrow> distinct (map fst (save k v t))"
  by (induction t) (auto simp: keys_save simp del: set_map)

lemma distinct_remove: "distinct (map fst t) \<Longrightarrow> distinct (map fst (remove k t))"
  by (simp add: remove_def distinct_map_filter)

lemma sum_save:
  fixes f :: "string \<times> 'a \<Rightarrow> int"
  shows "sum_list (map f (save k v t)) =
     sum_list (map f t) - (case load t k of None \<Rightarrow> 0 | Some old \<Rightarrow> f (k, old)) + f (k, v)"
  by (induction t) (auto simp: load_def)

lemma sum_remove:
  fixes f :: "string \<times> 'a \<Rightarrow> int"
  shows "distinct (map fst t) \<Longrightarrow>
     sum_list (map f (remove k t)) =
     sum_list (map f t) - (case load t k of None \<Rightarrow> 0 | Some old \<Rightarrow> f (k, old))"
proof (induction t)
  case Nil
  then show ?case by (simp add: remove_def)
next
  case (Cons p t)
  show ?case
  proof (cases "fst p = k")
    case True
    with Cons.prems have "k \<notin> set (map fst t)" by auto
    then have "remove k t = t" by (rule remove_absent)
    then have "remove k (p # t) = t" using True by (simp add: remove_def)
    with True show ?thesis by (cases p) (simp add: load_def)
  next
    case False
    with Cons show ?thesis by (simp add: remove_def load_def)
  qed
qed

lemma balanceUpdate_token:
  assumes "wfBalances tbl" and "CHR ''-'' \<notin> set u"
    and "load tbl (u @ ''-'' @ t) = Some b"
  shows "utb_token b = t"
proof -
  from assms(3) have "(u @ ''-'' @ t, b) \<in> set tbl" by (rule load_Some_mem)
  with assms(1) have "utb_token b = keyToken (u @ ''-'' @ t)"
    by (auto simp: wfBalances_def)
  with assms(2) show ?thesis by (simp add: keyToken_balanceId)
qed

lemma wf_balanceUpdate:
  assumes wf: "wfBalances tbl" and u: "CHR ''-'' \<notin> set u"
  shows "wfBalances (balanceUpdate u t d ts tbl)"
proof (cases "(case load tbl (u @ ''-'' @ t) of None \<Rightarrow> 0 | Some b \<Rightarrow> utb_balance b) + d = 0")
  case True
  then have e: "balanceUpdate u t d ts tbl = remove (u @ ''-'' @ t) tbl"
    by (simp add: balanceUpdate_def Let_def)
  from wf show ?thesis
    unfolding e wfBalances_def using set_remove_subset [of "u @ ''-'' @ t" tbl]
    by (auto simp: distinct_remove simp del: set_map)
next
  case False
  define r where "r = (case load tbl (u @ ''-'' @ t) of
                    None \<Rightarrow> \<lparr>utb_user = u, utb_token = t, utb_balance = 0,
                              utb_lastUpdated = 0\<rparr>
                  | Some b \<Rightarrow> b)\<lparr>utb_balance :=
                      (case load tbl (u @ ''-'' @ t) of None \<Rightarrow> 0 | Some b \<Rightarrow> utb_balance b) + d,
                    utb_lastUpdated := ts\<rparr>"
  from False have e: "balanceUpdate u t d ts tbl = save (u @ ''-'' @ t) r tbl"
    by (simp add: balanceUpdate_def Let_def r_def)
  have "utb_token r = t"
    using balanceUpdate_token [OF wf u] by (auto simp: r_def split: option.splits)
  then have k: "utb_token r = keyToken (u @ ''-'' @ t)"
    using u by (simp add: keyToken_balanceId)
  from wf k show ?thesis
    unfolding e wfBalances_def using set_save_subset [of "u @ ''-'' @ t" r tbl]
    by (auto simp: distinct_save simp del: set_map)
qed

lemma sum_balanceUpdate:
  assumes wf: "wfBalances tbl" and u: "CHR ''-'' \<notin> set u"
  shows "tableSum (balanceUpdate u t d ts tbl) tok = tableSum tbl tok + (if tok = t then d else 0)"
proof -
  from wf have dist: "distinct (map fst tbl)" by (simp add: wfBalances_def)
  show ?thesis
  proof (cases "load tbl (u @ ''-'' @ t)")
    case None
    then show ?thesis
      using sum_remove [OF dist, of _ "u @ ''-'' @ t"]
      by (auto simp: balanceUpdate_def Let_def tableSum_def sum_save)
  next
    case (Some b)
    then have "utb_token b = t" by (rule balanceUpdate_token [OF wf u])
    with Some show ?thesis
      using sum_remove [OF dist, of _ "u @ ''-'' @ t"]
      by (auto simp: balanceUpdate_def Let_def tableSum_def sum_save)
  qed
qed

lemma conserved_same:
  "conserved s \<Longrightarrow> tokens s1 = tokens s \<Longrightarrow> userTokenBalances s1 = userTokenBalances s \<Longrightarrow>
   conserved s1"
  by (simp add: conserved_def balanceSum_def tokenSupply_def)

lemma conserved_plain:
  assumes "conserved s" and "tokens s1 = tokens s"
    and "userTokenBalances s1 =
       balanceUpdate (toHex to) t m ts (balanceUpdate (toHex from) t (- m) ts' (userTokenBalances s))"
  shows "conserved s1"
proof -
  from assms(1) have wf: "wfBalances (userTokenBalances s)" by (simp add: conserved_def)
  then have wf1: "wfBalances (balanceUpdate (toHex from) t (- m) ts' (userTokenBalances s))"
    by (rule wf_balanceUpdate) (rule dash_notin_toHex)
  then have "wfBalances (userTokenBalances s1)"
    unfolding assms(3) by (rule wf_balanceUpdate) (rule dash_notin_toHex)
  moreover have "tableSum (userTokenBalances s1) tok = tableSum (userTokenBalances s) tok" for tok
    unfolding assms(3)
    by (simp add: sum_balanceUpdate [OF wf1 dash_notin_toHex]
        sum_balanceUpdate [OF wf dash_notin_toHex])
  ultimately show ?thesis
    using assms(1,2) by (simp add: conserved_def balanceSum_def tokenSupply_def)
qed

lemma conserved_mint:
  assumes "conserved s" and "load (tokens s) t = Some tk"
    and "tokens s1 = save t (tk\<lparr>tok_currentSupply := tok_currentSupply tk + m\<rparr>) (tokens s)"
    and "userTokenBalances s1 = balanceUpdate (toHex to) t m ts (userTokenBalances s)"
  shows "conserved s1"
proof -
  from assms(1) have wf: "wfBalances (userTokenBalances s)" by (simp add: conserved_def)
  then have "wfBalances (userTokenBalances s1)"
    unfolding assms(4) by (rule wf_balanceUpdate) (rule dash_notin_toHex)
  moreover have "tableSum (userTokenBalances s1) tok =
      tableSum (userTokenBalances s) tok + (if tok = t then m else 0)" for tok
    unfolding assms(4) by (rule sum_balanceUpdate [OF wf dash_notin_toHex])
  ultimately show ?thesis
    using assms(1,2,3)
    by (auto simp: conserved_def balanceSum_def tokenSupply_def load_save)
qed

lemma conserved_create:
  assumes "conserved s" and "load (tokens s) t = None"
    and "tokens s1 = save t tk (tokens s)" and "tok_currentSupply tk = 0"
    and "userTokenBalances s1 = userTokenBalances s"
  shows "conserved s1"
proof -
  from assms(1,2) have "tableSum (userTokenBalances s) t = 0"
    by (auto simp: conserved_def balanceSum_def tokenSupply_def)
  with assms show ?thesis
    by (auto simp: conserved_def balanceSum_def tokenSupply_def load_save)
qed

lemma handleTokenMint_conserved:
  assumes "conserved s" and "load (tokens s) (toStr t) \<noteq> None"
  shows "conserved (handleTokenMint to t m op ev s)"
proof -
  from assms(2) obtain tk where tk: "load (tokens s) (toStr t) = Some tk" by auto
  show ?thesis
    by (rule conserved_mint [OF assms(1) tk])
      (simp_all add: handleTokenMint_tokens handleTokenMint_balances tk)
qed

lemma plain_conserved:
  assumes "conserved s"
  shows "conserved (updateUserBalance to t m ts (updateUserBalance from t (- m) ts' s))"
  by (rule conserved_plain [OF assms])
    (simp_all add: updateUserBalance_balances)

lemma handleTokenMint_known_tokens:
  "load (tokens (handleTokenMint to t m op ev s)) k = None \<longleftrightarrow> load (tokens s) k = None"
  by (auto simp: handleTokenMint_tokens load_save split: option.splits)

lemma handleTransferSingle_conserved:
  assumes "conserved s" and "mintsKnown s (OnTransferSingle e)"
  shows "conserved (handleTransferSingle e s)"
proof (cases "toHex (ts_from e) = ZERO_ADDRESS")
  case True
  with assms(2) have "load (tokens s) (toStr (ts_id e)) \<noteq> None"
    by (simp add: mintsKnown_def)
  from handleTokenMint_conserved [OF assms(1) this] True show ?thesis
    by (simp add: handleTransferSingle_def Let_def)
next
  case False
  have "conserved (updateUserBalance (ts_to e) (ts_id e) (ts_value e) (block_timestamp e)
          (updateUserBalance (ts_from e) (ts_id e) (- ts_value e) (block_timestamp e) s))"
    using assms(1) by (rule plain_conserved)
  then show ?thesis
    using False
    by (elim conserved_same) (simp_all add: handleTransferSingle_def Let_def)
qed

lemma transferBatchLoop_conserved:
  "conserved s \<Longrightarrow>
   (toHex (tb_from ev) = ZERO_ADDRESS \<longrightarrow> (\<forall>t\<in>set ids. load (tokens s) (toStr t) \<noteq> None)) \<Longrightarrow>
   transferBatchLoop ev ids vals s = Inr s1 \<Longrightarrow> conserved s1"
proof (induction ev ids vals s rule: transferBatchLoop.induct)
  case (1 event vals s)
  then show ?case by simp
next
  case (2 event tokenId ids s)
  then show ?case by simp
next
  case (3 event tokenId ids amount vals s)
  let ?s = "if toHex (tb_from event) = ZERO_ADDRESS
            then handleTokenMint (tb_to event) tokenId amount (tb_operator event) event s
            else updateUserBalance (tb_to event) tokenId amount (block_timestamp event)
                   (updateUserBalance (tb_from event) tokenId (- amount)
                      (block_timestamp event) s)"
  have c: "conserved ?s"
    using "3.prems"(1,2) by (simp add: handleTokenMint_conserved plain_conserved)
  have k: "toHex (tb_from event) = ZERO_ADDRESS \<longrightarrow>
      (\<forall>t\<in>set ids. load (tokens ?s) (toStr t) \<noteq> None)"
    using "3.prems"(2) by (simp add: handleTokenMint_known_tokens)
  from "3.prems"(3) have "transferBatchLoop event ids vals ?s = Inr s1" by simp
  from "3.IH" [OF c k this] show ?case .
qed

lemma applyEvent_conserved:
  assumes c: "conserved s" and k: "mintsKnown s ev" and a: "applyEvent env ev s = Inr s1"
  shows "conserved s1"
proof (cases ev)
  case (OnTokenCreated e)
  show ?thesis
  proof (cases "load (tokens s) (toStr (p_tokenId e))")
    case None
    with a OnTokenCreated obtain s0 where ct: "createToken env e s = Inr s0"
      and s1: "s1 = recordCreation e s0"
      by (auto simp: handleTokenCreated_def bindE_def split: sum.splits)
    from createToken_tokens [OF ct] obtain tk where
      tk: "tokens s0 = save (toStr (p_tokenId e)) tk (tokens s)" "tok_currentSupply tk = 0"
      by blast
    have "conserved s0"
      by (rule conserved_create [OF c None tk]) (rule createToken_frame(4) [OF ct])
    then show ?thesis
      unfolding s1 by (rule conserved_same) simp_all
  next
    case (Some tk)
    with a OnTokenCreated have "s1 = recordCreation e s"
      by (simp add: handleTokenCreated_def bindE_def)
    with c show ?thesis by (elim conserved_same) simp_all
  qed
next
  case (OnTransferSingle e)
  with a k c show ?thesis by (auto simp: handleTransferSingle_conserved)
next
  case (OnTransferBatch e)
  with a obtain s0 where l: "transferBatchLoop e (tb_ids e) (tb_values e) s = Inr s0"
    and s1: "tokens s1 = tokens s0" "userTokenBalances s1 = userTokenBalances s0"
    by (auto simp: handleTransferBatch_def bindE_def Let_def split: sum.splits)
  from k OnTransferBatch have
    "toHex (tb_from e) = ZERO_ADDRESS \<longrightarrow> (\<forall>t\<in>set (tb_ids e). load (tokens s) (toStr t) \<noteq> None)"
    by (simp add: mintsKnown_def list_all_iff)
  from transferBatchLoop_conserved [OF c this l] have "conserved s0" .
  then show ?thesis using s1 by (rule conserved_same)
next
  case (OnRoleGranted e)
  with a have "s1 = handleRoleGranted e s" by simp
  with c show ?thesis by (elim conserved_same) (simp_all add: handleRoleGranted_def)
next
  case (OnRoleRevoked e)
  with a have "s1 = handleRoleRevoked e s" by simp
  with c show ?thesis by (elim conserved_same) (simp_all add: handleRoleRevoked_def)
qed

lemma applyEvents_conserved:
  "conserved s \<Longrightarrow> mintsKnownAlong env evs s \<Longrightarrow> applyEvents env evs s = Inr s1 \<Longrightarrow>
   conserved s1"
proof (induction evs arbitrary: s)
  case Nil
  then show ?case by simp
next
  case (Cons e es)
  from Cons.prems(3) obtain s0 where e: "applyEvent env e s = Inr s0"
    and es: "applyEvents env es s0 = Inr s1"
    by (auto split: sum.splits)
  from Cons.prems(2) e have k: "mintsKnown s e" "mintsKnownAlong env es s0" by simp_all
  from applyEvent_conserved [OF Cons.prems(1) k(1) e] have "conserved s0" .
  from Cons.IH [OF this k(2) es] show ?case .
qed

lemma conserved_emptyStore: "conserved emptyStore"
  by (simp add: conserved_def wfBalances_def balanceSum_def tableSum_def tokenSupply_def
      emptyStore_def)

text \<open>
  Claim C1, as amended. Start from the empty store and apply any sequence of events in
  which every mint refers to a token whose Token already exists when the mint is applied.
  Then, after the sequence (and so after each of its prefixes), the balances of the
  balance records of every existing token sum to the current supply of the Token.
\<close>

theorem C1_balance_conservation:
  "applyEvents env evs emptyStore = Inr s \<Longrightarrow> mintsKnownAlong env evs emptyStore \<Longrightarrow>
   load (tokens s) tok = Some t \<Longrightarrow> balanceSum s tok = tok_currentSupply t"
proof -
  assume run: "applyEvents env evs emptyStore = Inr s"
    and known: "mintsKnownAlong env evs emptyStore"
    and t: "load (tokens s) tok = Some t"
  from applyEvents_conserved [OF conserved_emptyStore known run] have "conserved s" .
  then have "balanceSum s tok = (case tokenSupply s tok of None \<Rightarrow> 0 | Some n \<Rightarrow> n)"
    by (simp add: conserved_def)
  with t show ?thesis by (simp add: tokenSupply_def)
qed

lemma handleTokenCreated_fresh:
  assumes n: "load (tokens s) (toStr (p_tokenId ev)) = None"
    and u: "unparsable env (try_uri env (ev_address ev) (p_tokenId ev))"
  shows "\<exists>s1 tk. handleTokenCreated env ev s = Inr s1 \<and>
           tokens s1 = save (toStr (p_tokenId ev)) tk (tokens s) \<and> tok_currentSupply tk = 0 \<and>
           userTokenBalances s1 = userTokenBalances s"
proof -
  from createToken_returns [OF u] obtain s0 where c: "createToken env ev s = Inr s0" by blast
  from createToken_tokens [OF c] obtain tk where
    tk: "tokens s0 = save (toStr (p_tokenId ev)) tk (tokens s)" "tok_currentSupply tk = 0"
    by blast
  have "handleTokenCreated env ev s = Inr (recordCreation ev s0)"
    using n c by (simp add: handleTokenCreated_def bindE_def)
  moreover have "tokens (recordCreation ev s0) = save (toStr (p_tokenId ev)) tk (tokens s)"
    using tk by simp
  moreover have "userTokenBalances (recordCreation ev s0) = userTokenBalances s"
    using createToken_frame(4) [OF c] by simp
  ultimately show ?thesis using tk(2) by blast
qed

lemma mintEv_fields:
  "toHex (ts_from mintEv) = ZERO_ADDRESS" "toStr (ts_id mintEv) = ''42''"
  "toHex (ts_to mintEv) = ''0x00000000000000000000000000000000000000a1''"
  "ts_value mintEv = 5" "block_timestamp mintEv = 1700000000"
  by (simp_all add: mintEv_def toHex_zeroAddr toStr_42 toHex_addrA)

lemma xferEv_fields:
  "toHex (ts_from xferEv) = ''0x00000000000000000000000000000000000000a1''"
  "toHex (ts_to xferEv) = ''0x00000000000000000000000000000000000000b2''"
  "toStr (ts_id xferEv) = ''42''" "ts_value xferEv = 5" "block_timestamp xferEv = 1700000100"
  by (simp_all add: xferEv_def toStr_42 toHex_addrA toHex_addrB)

lemma createEv_fields: "toStr (p_tokenId createEv) = ''42''"
  by (simp add: createEv_def toStr_42)

lemma mintThenCreate_result:
  "\<not> isl (applyEvents hostNone mintThenCreate emptyStore)"
  "tokenSupply (projr (applyEvents hostNone mintThenCreate emptyStore)) ''42'' = Some 0"
  "balanceSum (projr (applyEvents hostNone mintThenCreate emptyStore)) ''42'' = 5"
proof -
  define sm where "sm = handleTransferSingle mintEv emptyStore"
  have e: "tokens emptyStore = []" "userTokenBalances emptyStore = []"
    by (simp_all add: emptyStore_def)
  have tm: "tokens sm = []"
    unfolding sm_def by (simp add: handleTransferSingle_tokens_unknown mintEv_fields e)
  have bm: "tableSum (userTokenBalances sm) ''42'' = 5"
    unfolding sm_def
    by (simp add: handleTransferSingle_balances mintEv_fields e balanceUpdate_def Let_def
        tableSum_def)
  have "load (tokens sm) (toStr (p_tokenId createEv)) = None"
    by (simp add: tm)
  from handleTokenCreated_fresh [OF this unparsable_hostNone]
  obtain s1 tk where s1: "handleTokenCreated hostNone createEv sm = Inr s1"
    and tk: "tokens s1 = save (toStr (p_tokenId createEv)) tk (tokens sm)"
      "tok_currentSupply tk = 0"
    and b: "userTokenBalances s1 = userTokenBalances sm"
    by blast
  have r: "applyEvents hostNone mintThenCreate emptyStore = Inr s1"
    using s1 by (simp add: mintThenCreate_def sm_def)
  show "\<not> isl (applyEvents hostNone mintThenCreate emptyStore)"
    by (simp add: r)
  show "tokenSupply (projr (applyEvents hostNone mintThenCreate emptyStore)) ''42'' = Some 0"
    by (simp add: r tokenSupply_def tk createEv_fields tm load_def)
  show "balanceSum (projr (applyEvents hostNone mintThenCreate emptyStore)) ''42'' = 5"
    by (simp add: r balanceSum_def b bm)
qed

text \<open>
  The claim as stated fails on the run that mints 5 units of token 42 to A and then creates
  token 42: the Token exists with supply 0 and the balances of the token sum to 5.
\<close>

theorem C1_mint_before_creation:
  "\<not> isl (applyEvents hostNone mintThenCreate emptyStore) \<and>
   tokenSupply (projr (applyEvents hostNone mintThenCreate emptyStore)) ''42'' = Some 0 \<and>
   balanceSum (projr (applyEvents hostNone mintThenCreate emptyStore)) ''42'' = 5"
  using mintThenCreate_result by blast

lemma createMintTransfer_result:
  "applyEvents hostNone createMintTransfer emptyStore =
     Inr (projr (applyEvents hostNone createMintTransfer emptyStore))"
  "mintsKnownAlong hostNone createMintTransfer emptyStore"
  "\<exists>t. load (tokens (projr (applyEvents hostNone createMintTransfer emptyStore))) ''42'' = Some t \<and>
       tok_currentSupply t = 5"
proof -
  have e: "tokens emptyStore = []" "userTokenBalances emptyStore = []"
    by (simp_all add: emptyStore_def)
  have "load (tokens emptyStore) (toStr (p_tokenId createEv)) = None"
    by (simp add: e)
  from handleTokenCreated_fresh [OF this unparsable_hostNone]
  obtain s1 tk where s1: "handleTokenCreated hostNone createEv emptyStore = Inr s1"
    and tk: "tokens s1 = save (toStr (p_tokenId createEv)) tk (tokens emptyStore)"
      "tok_currentSupply tk = 0"
    by blast
  have t1: "tokens s1 = [(''42'', tk)]"
    by (simp add: tk createEv_fields e)
  have r: "applyEvents hostNone createMintTransfer emptyStore =
      Inr (handleTransferSingle xferEv (handleTransferSingle mintEv s1))"
    using s1 by (simp add: createMintTransfer_def)
  show "applyEvents hostNone createMintTransfer emptyStore =
     Inr (projr (applyEvents hostNone createMintTransfer emptyStore))"
    by (simp add: r)
  have nz: "toHex (ts_from xferEv) \<noteq> ZERO_ADDRESS"
    by (simp add: xferEv_fields ZERO_ADDRESS_def)
  show "mintsKnownAlong hostNone createMintTransfer emptyStore"
    using nz
    by (simp add: createMintTransfer_def s1 mintsKnown_def mintEv_fields t1 load_def)
  have "tokens (handleTransferSingle xferEv (handleTransferSingle mintEv s1)) =
      [(''42'', tk\<lparr>tok_currentSupply := tok_currentSupply tk + 5\<rparr>)]"
    using nz
    by (simp add: handleTransferSingle_def Let_def mintEv_fields handleTokenMint_tokens t1
        load_def)
  then show "\<exists>t. load (tokens (projr (applyEvents hostNone createMintTransfer emptyStore))) ''42'' =
      Some t \<and> tok_currentSupply t = 5"
    by (simp add: r load_def tk(2))
qed

text \<open>
  The run that creates token 42, mints 5 units to A and transfers them to B: each mint
  finds its Token, the supply is 5 and the balances sum to 5.
\<close>

theorem C1_balance_conservation_witness:
  "applyEvents hostNone createMintTransfer emptyStore =
     Inr (projr (applyEvents hostNone createMintTransfer emptyStore)) \<and>
   mintsKnownAlong hostNone createMintTransfer emptyStore \<and>
   tokenSupply (projr (applyEvents hostNone createMintTransfer emptyStore)) ''42'' = Some 5 \<and>
   balanceSum (projr (applyEvents hostNone createMintTransfer emptyStore)) ''42'' = 5"
proof -
  from createMintTransfer_result(3) obtain t where
    t: "load (tokens (projr (applyEvents hostNone createMintTransfer emptyStore))) ''42'' = Some t"
    and s: "tok_currentSupply t = 5"
    by blast
  from C1_balance_conservation [OF createMintTransfer_result(1,2) t] s
  have "balanceSum (projr (applyEvents hostNone createMintTransfer emptyStore)) ''42'' = 5"
    by simp
  with createMintTransfer_result(1,2) t s show ?thesis
    by (simp add: tokenSupply_def)
qed

end
